theory Spec2Isabelle
  imports Main
begin

section \<open>The node configuration assembler of kops (pkg/apis/nodeup/config.go)\<close>

text \<open>
  The file \<^verbatim>\<open>pkg/apis/nodeup/config.go\<close> declares the types \<^verbatim>\<open>Config\<close>,
  \<^verbatim>\<open>BootConfig\<close>, \<^verbatim>\<open>ConfigServerOptions\<close>, \<^verbatim>\<open>Image\<close>, \<^verbatim>\<open>StaticManifest\<close> and
  \<^verbatim>\<open>APIServerConfig\<close> and the functions \<^verbatim>\<open>NewConfig\<close>,
  \<^verbatim>\<open>UsesInstanceIDForNodeName\<close>, \<^verbatim>\<open>filterFileAssets\<close>, \<^verbatim>\<open>filterHooks\<close> and
  \<^verbatim>\<open>containsRole\<close>. The types of package \<^verbatim>\<open>k8s.io/kops/pkg/apis/kops\<close> that
  these functions read are declared in another file; the records below carry the fields
  that \<^verbatim>\<open>config.go\<close> reads by name, and one field \<open>Other\<close> for all the fields
  it does not name (which the methods of package \<^verbatim>\<open>kops\<close> may read).

  Conventions of the embedding:
  \<^item> a Go pointer \<^verbatim>\<open>*T\<close> is a \<open>T option\<close>, \<open>None\<close> being \<^verbatim>\<open>nil\<close>;
  \<^item> in the value model a Go slice is the list of its elements and a Go map is a partial
    function, so that a \<^verbatim>\<open>nil\<close> slice and an empty one are both \<open>[]\<close>, a
    \<^verbatim>\<open>nil\<close> map and an empty one both \<open>Map.empty\<close>; the memory model of the
    last sections has slice headers, backing arrays and the \<^verbatim>\<open>nil\<close> slice;
  \<^item> a Go string is a \<open>string\<close> (a list of bytes);
  \<^item> a run-time panic is the left summand of the result type.
\<close>

subsection \<open>Types of package kops read by config.go\<close>

type_synonym InstanceGroupRole = string
type_synonym CloudProviderID = string
type_synonym other_fields = "(string \<times> string) list"

text \<open>\<^verbatim>\<open>kops.HookSpec\<close>: \<^verbatim>\<open>config.go\<close> reads and writes the field \<^verbatim>\<open>Roles\<close>.\<close>

record HookSpec =
  Roles :: "InstanceGroupRole list"
  Other :: other_fields

text \<open>\<^verbatim>\<open>kops.FileAssetSpec\<close>: \<^verbatim>\<open>config.go\<close> reads and writes the field \<^verbatim>\<open>Roles\<close>.\<close>

record FileAssetSpec =
  Roles :: "InstanceGroupRole list"
  Other :: other_fields

type_synonym VolumeMountSpec = other_fields
type_synonym KubeletConfigSpec = other_fields
type_synonym KubeAPIServerConfig = other_fields
type_synonym ContainerdConfig = other_fields
type_synonym NvidiaGPUConfig = other_fields
type_synonym CloudControllerManagerConfig = other_fields
type_synonym AmazonVPCNetworkingSpec = other_fields
type_synonym Architecture = string

record WarmPoolSpec =
  EnableLifecycleHook :: bool
  Other :: other_fields

record AWSSpec =
  WarmPool :: "WarmPoolSpec option"
  DisableSecurityGroupIngress :: "bool option"
  ElbSecurityGroup :: "string option"
  NodeIPFamilies :: "string list"
  Other :: other_fields

record GCESpec =
  Multizone :: "bool option"
  NodeTags :: "string option"
  NodeInstancePrefix :: "string option"
  Other :: other_fields

record CloudProviderSpec =
  AWS :: "AWSSpec option"
  GCE :: "GCESpec option"
  Other :: other_fields

record NetworkingSpec =
  AmazonVPC :: "AmazonVPCNetworkingSpec option"
  Other :: other_fields

record ObjectMeta =
  Name :: string
  Other :: other_fields

record ClusterSpec =
  Hooks :: "HookSpec list"
  FileAssets :: "FileAssetSpec list"
  ContainerRuntime :: string
  CloudProvider :: CloudProviderSpec
  UpdatePolicy :: "string option"
  Networking :: NetworkingSpec
  ExternalCloudControllerManager :: "CloudControllerManagerConfig option"
  KubeAPIServer :: "KubeAPIServerConfig option"
  Other :: other_fields

record Cluster =
  ObjectMeta :: ObjectMeta
  Spec :: ClusterSpec

record InstanceGroupSpec =
  Role :: InstanceGroupRole
  Hooks :: "HookSpec list"
  FileAssets :: "FileAssetSpec list"
  SysctlParameters :: "string list"
  VolumeMounts :: "VolumeMountSpec list"
  UpdatePolicy :: "string option"
  MachineType :: string
  Kubelet :: "KubeletConfigSpec option"
  Other :: other_fields

record InstanceGroup =
  ObjectMeta :: ObjectMeta
  Spec :: InstanceGroupSpec

text \<open>
  The methods and constants of package \<^verbatim>\<open>kops\<close> that \<^verbatim>\<open>config.go\<close> uses and
  whose declarations are in another file. They are parameters of the model: every theorem
  below holds for each choice of them.
  \<^item> \<open>GetCloudProvider\<close>: \<^verbatim>\<open>(*ClusterSpec).GetCloudProvider()\<close>;
  \<^item> \<open>HasAPIServer\<close>: \<^verbatim>\<open>(*InstanceGroup).HasAPIServer()\<close>;
  \<^item> \<open>IsKubernetesLT\<close>: \<^verbatim>\<open>(*Cluster).IsKubernetesLT(version)\<close>;
  \<^item> \<open>ResolveDefaults\<close>: \<^verbatim>\<open>(*WarmPoolSpec).ResolveDefaults(instanceGroup)\<close>, called
    on a receiver that may be \<^verbatim>\<open>nil\<close>;
  \<^item> \<open>IsEnabled\<close>: \<^verbatim>\<open>(*WarmPoolSpec).IsEnabled()\<close>;
  \<^item> \<open>CloudProviderAWS\<close>, \<open>UpdatePolicyAutomatic\<close>: the constants of these names.
\<close>

record kops_pkg =
  GetCloudProvider :: "ClusterSpec \<Rightarrow> CloudProviderID"
  HasAPIServer :: "InstanceGroup \<Rightarrow> bool"
  IsKubernetesLT :: "Cluster \<Rightarrow> string \<Rightarrow> bool"
  ResolveDefaults :: "WarmPoolSpec option \<Rightarrow> InstanceGroup \<Rightarrow> WarmPoolSpec option"
  IsEnabled :: "WarmPoolSpec option \<Rightarrow> bool"
  CloudProviderAWS :: CloudProviderID
  UpdatePolicyAutomatic :: string

subsection \<open>Types declared in config.go\<close>

record Image =
  Name :: string
  Sources :: "string list"
  Hash :: string

record StaticManifest =
  Key :: string
  Path :: string

record APIServerConfig =
  KubeAPIServer :: "KubeAPIServerConfig option"
  EncryptionConfigSecretHash :: string
  ServiceAccountPublicKeys :: string

record ConfigServerOptions =
  Server :: string
  CACertificates :: string

record Config =
  Assets :: "Architecture \<rightharpoonup> string list"
  Images :: "Architecture \<rightharpoonup> Image list"
  ClusterName :: string
  Channels :: "string list"
  ApiserverAdditionalIPs :: "string list"
  Packages :: "string list"
  EtcdManifests :: "string list"
  CAs :: "string \<rightharpoonup> string"
  KeypairIDs :: "string \<rightharpoonup> string"
  DefaultMachineType :: "string option"
  EnableLifecycleHook :: bool
  StaticManifests :: "StaticManifest list"
  KubeletConfig :: KubeletConfigSpec
  SysctlParameters :: "string list"
  UpdatePolicy :: string
  VolumeMounts :: "VolumeMountSpec list"
  FileAssets :: "FileAssetSpec list"
  Hooks :: "HookSpec list list"
  ContainerRuntime :: string
  ContainerdConfig :: "ContainerdConfig option"
  APIServerConfig :: "APIServerConfig option"
  NvidiaGPU :: "NvidiaGPUConfig option"
  DisableSecurityGroupIngress :: "bool option"
  ElbSecurityGroup :: "string option"
  NodeIPFamilies :: "string list"
  UseInstanceIDForNodeName :: bool
  WarmPoolImages :: "string list"
  Multizone :: "bool option"
  NodeTags :: "string option"
  NodeInstancePrefix :: "string option"

record BootConfig =
  CloudProvider :: CloudProviderID
  ConfigBase :: "string option"
  ConfigServer :: "ConfigServerOptions option"
  APIServerIP :: string
  InstanceGroupName :: string
  InstanceGroupRole :: InstanceGroupRole
  NodeupConfigHash :: string

datatype panic = NilPointerDereference | IndexOutOfRange

subsection \<open>Role filtering\<close>

text \<open>\<^verbatim>\<open>containsRole\<close>: the loop returns at the first element equal to \<open>v\<close>.\<close>

fun containsRole :: "InstanceGroupRole \<Rightarrow> InstanceGroupRole list \<Rightarrow> bool" where
  "containsRole v [] = False"
| "containsRole v (x # list) = (if v = x then True else containsRole v list)"

text \<open>
  \<^verbatim>\<open>filterHooks\<close>: the loop variable \<^verbatim>\<open>hook\<close> is a copy of the element; the loop
  skips it (\<^verbatim>\<open>continue\<close>) or sets the copy's \<^verbatim>\<open>Roles\<close> to \<^verbatim>\<open>nil\<close> and appends it
  to \<^verbatim>\<open>hooks\<close>, which starts as the \<^verbatim>\<open>nil\<close> slice.
\<close>

fun filterHooks_loop ::
  "HookSpec list \<Rightarrow> InstanceGroupRole \<Rightarrow> HookSpec list \<Rightarrow> HookSpec list" where
  "filterHooks_loop [] role hooks = hooks"
| "filterHooks_loop (hook # h) role hooks =
     (if 0 < length (HookSpec.Roles hook) \<and> \<not> containsRole role (HookSpec.Roles hook)
      then filterHooks_loop h role hooks
      else filterHooks_loop h role (hooks @ [hook\<lparr>HookSpec.Roles := []\<rparr>]))"

definition filterHooks :: "HookSpec list \<Rightarrow> InstanceGroupRole \<Rightarrow> HookSpec list" where
  "filterHooks h role = filterHooks_loop h role []"

fun filterFileAssets_loop ::
  "FileAssetSpec list \<Rightarrow> InstanceGroupRole \<Rightarrow> FileAssetSpec list \<Rightarrow> FileAssetSpec list" where
  "filterFileAssets_loop [] role fileAssets = fileAssets"
| "filterFileAssets_loop (fileAsset # f) role fileAssets =
     (if 0 < length (FileAssetSpec.Roles fileAsset)
          \<and> \<not> containsRole role (FileAssetSpec.Roles fileAsset)
      then filterFileAssets_loop f role fileAssets
      else filterFileAssets_loop f role
             (fileAssets @ [fileAsset\<lparr>FileAssetSpec.Roles := []\<rparr>]))"

definition filterFileAssets ::
  "FileAssetSpec list \<Rightarrow> InstanceGroupRole \<Rightarrow> FileAssetSpec list" where
  "filterFileAssets f role = filterFileAssets_loop f role []"

subsection \<open>strings.Split with a one-byte separator\<close>

text \<open>
  \<^verbatim>\<open>strings.Split(s, sep)\<close> of the Go standard library, for a separator of one byte
  (\<^verbatim>\<open>NewConfig\<close> calls it with \<^verbatim>\<open>","\<close>): while the separator occurs in the rest of
  the string, the bytes before its first occurrence are the next element and the rest
  restarts after it; what remains at the end is the last element.
\<close>

function strings_Split :: "string \<Rightarrow> char \<Rightarrow> string list" where
  "strings_Split s sep =
     (if sep \<in> set s
      then takeWhile (\<lambda>c. c \<noteq> sep) s # strings_Split (tl (dropWhile (\<lambda>c. c \<noteq> sep) s)) sep
      else [s])"
  by pat_completeness auto
termination
proof (relation "measure (\<lambda>(s, sep). length s)")
  show "wf (measure (\<lambda>(s, sep). length s))"
    by simp
next
  fix s :: string and sep :: char
  assume mem: "sep \<in> set s"
  then have ne: "dropWhile (\<lambda>c. c \<noteq> sep) s \<noteq> []"
    by auto
  have "length (dropWhile (\<lambda>c. c \<noteq> sep) s) \<le> length s"
    by (rule length_dropWhile_le)
  with ne have "length (tl (dropWhile (\<lambda>c. c \<noteq> sep) s)) < length s"
    by (cases "dropWhile (\<lambda>c. c \<noteq> sep) s") simp_all
  then show "((tl (dropWhile (\<lambda>c. c \<noteq> sep) s), sep), (s, sep)) \<in> measure (\<lambda>(s, sep). length s)"
    by simp
qed

declare strings_Split.simps [simp del]

subsection \<open>NewConfig\<close>

text \<open>The zero values of \<^verbatim>\<open>Config\<close> and \<^verbatim>\<open>BootConfig\<close>, which a composite literal
  gives to the fields it does not name.\<close>

definition Config_zero :: Config where
  "Config_zero =
     \<lparr>Assets = Map.empty, Images = Map.empty, ClusterName = [], Channels = [],
      ApiserverAdditionalIPs = [], Packages = [], EtcdManifests = [], CAs = Map.empty,
      KeypairIDs = Map.empty, DefaultMachineType = None, EnableLifecycleHook = False,
      StaticManifests = [], KubeletConfig = [], SysctlParameters = [], UpdatePolicy = [],
      VolumeMounts = [], FileAssets = [], Hooks = [], ContainerRuntime = [],
      ContainerdConfig = None, APIServerConfig = None, NvidiaGPU = None,
      DisableSecurityGroupIngress = None, ElbSecurityGroup = None, NodeIPFamilies = [],
      UseInstanceIDForNodeName = False, WarmPoolImages = [], Multizone = None,
      NodeTags = None, NodeInstancePrefix = None\<rparr>"

definition BootConfig_zero :: BootConfig where
  "BootConfig_zero =
     \<lparr>CloudProvider = [], ConfigBase = None, ConfigServer = None, APIServerIP = [],
      InstanceGroupName = [], InstanceGroupRole = [], NodeupConfigHash = []\<rparr>"

definition APIServerConfig_zero :: APIServerConfig where
  "APIServerConfig_zero =
     \<lparr>KubeAPIServer = None, EncryptionConfigSecretHash = [], ServiceAccountPublicKeys = []\<rparr>"

text \<open>\<^verbatim>\<open>UsesInstanceIDForNodeName\<close> (lines 232-234).\<close>

definition UsesInstanceIDForNodeName :: "kops_pkg \<Rightarrow> Cluster \<Rightarrow> bool" where
  "UsesInstanceIDForNodeName kops cluster =
     (ClusterSpec.ExternalCloudControllerManager (Cluster.Spec cluster) \<noteq> None
      \<and> GetCloudProvider kops (Cluster.Spec cluster) = CloudProviderAWS kops)"

text \<open>Lines 165-174: the composite literal \<^verbatim>\<open>config := Config{...}\<close>, with the role
  filters of lines 162, 163 and 171.\<close>

definition NewConfig_config :: "Cluster \<Rightarrow> InstanceGroup \<Rightarrow> Config" where
  "NewConfig_config cluster instanceGroup =
     (let role = InstanceGroupSpec.Role (InstanceGroup.Spec instanceGroup);
          clusterHooks = filterHooks (ClusterSpec.Hooks (Cluster.Spec cluster))
                           (InstanceGroupSpec.Role (InstanceGroup.Spec instanceGroup));
          igHooks = filterHooks (InstanceGroupSpec.Hooks (InstanceGroup.Spec instanceGroup))
                      (InstanceGroupSpec.Role (InstanceGroup.Spec instanceGroup))
      in Config_zero
           \<lparr>Config.ClusterName := ObjectMeta.Name (Cluster.ObjectMeta cluster),
            Config.CAs := Map.empty,
            Config.KeypairIDs := Map.empty,
            Config.SysctlParameters :=
              InstanceGroupSpec.SysctlParameters (InstanceGroup.Spec instanceGroup),
            Config.VolumeMounts :=
              InstanceGroupSpec.VolumeMounts (InstanceGroup.Spec instanceGroup),
            Config.FileAssets :=
              filterFileAssets
                (InstanceGroupSpec.FileAssets (InstanceGroup.Spec instanceGroup)) role
              @ filterFileAssets (ClusterSpec.FileAssets (Cluster.Spec cluster)) role,
            Config.Hooks := [igHooks, clusterHooks],
            Config.ContainerRuntime := ClusterSpec.ContainerRuntime (Cluster.Spec cluster)\<rparr>)"

text \<open>Lines 176-180: the composite literal \<^verbatim>\<open>bootConfig := BootConfig{...}\<close>.\<close>

definition NewConfig_bootConfig :: "kops_pkg \<Rightarrow> Cluster \<Rightarrow> InstanceGroup \<Rightarrow> BootConfig" where
  "NewConfig_bootConfig kops cluster instanceGroup =
     BootConfig_zero
       \<lparr>BootConfig.CloudProvider := GetCloudProvider kops (Cluster.Spec cluster),
        BootConfig.InstanceGroupName := ObjectMeta.Name (InstanceGroup.ObjectMeta instanceGroup),
        BootConfig.InstanceGroupRole :=
          InstanceGroupSpec.Role (InstanceGroup.Spec instanceGroup)\<rparr>"

text \<open>
  Lines 182-194, the AWS block. \<^verbatim>\<open>warmPool.IsEnabled() && warmPool.EnableLifecycleHook\<close>
  reads the field through the pointer that \<^verbatim>\<open>ResolveDefaults\<close> returned only when
  \<^verbatim>\<open>IsEnabled\<close> is true; reading it through \<^verbatim>\<open>nil\<close> panics.
\<close>

definition NewConfig_aws ::
  "kops_pkg \<Rightarrow> Cluster \<Rightarrow> InstanceGroup \<Rightarrow> Config \<Rightarrow> panic + Config" where
  "NewConfig_aws kops cluster instanceGroup config =
     (case CloudProviderSpec.AWS (ClusterSpec.CloudProvider (Cluster.Spec cluster)) of
        None \<Rightarrow> Inr config
      | Some aws \<Rightarrow>
          (let warmPool = ResolveDefaults kops (AWSSpec.WarmPool aws) instanceGroup
           in case (if IsEnabled kops warmPool
                    then (case warmPool of
                            None \<Rightarrow> Inl NilPointerDereference
                          | Some w \<Rightarrow>
                              Inr (if WarmPoolSpec.EnableLifecycleHook w
                                   then config\<lparr>Config.EnableLifecycleHook := True\<rparr>
                                   else config))
                    else Inr config) of
                Inl e \<Rightarrow> Inl e
              | Inr config \<Rightarrow>
                  Inr (if HasAPIServer kops instanceGroup \<or> IsKubernetesLT kops cluster ''1.24''
                       then config
                              \<lparr>Config.DisableSecurityGroupIngress :=
                                 AWSSpec.DisableSecurityGroupIngress aws,
                               Config.ElbSecurityGroup := AWSSpec.ElbSecurityGroup aws,
                               Config.NodeIPFamilies := AWSSpec.NodeIPFamilies aws\<rparr>
                       else config)))"

text \<open>Lines 196-201, the GCE block.\<close>

definition NewConfig_gce :: "Cluster \<Rightarrow> Config \<Rightarrow> Config" where
  "NewConfig_gce cluster config =
     (case CloudProviderSpec.GCE (ClusterSpec.CloudProvider (Cluster.Spec cluster)) of
        None \<Rightarrow> config
      | Some gce \<Rightarrow>
          config\<lparr>Config.Multizone := GCESpec.Multizone gce,
                 Config.NodeTags := GCESpec.NodeTags gce,
                 Config.NodeInstancePrefix := GCESpec.NodeInstancePrefix gce\<rparr>)"

text \<open>Lines 203-209, the update policy.\<close>

definition NewConfig_updatePolicy ::
  "kops_pkg \<Rightarrow> Cluster \<Rightarrow> InstanceGroup \<Rightarrow> Config \<Rightarrow> Config" where
  "NewConfig_updatePolicy kops cluster instanceGroup config =
     (case InstanceGroupSpec.UpdatePolicy (InstanceGroup.Spec instanceGroup) of
        Some p \<Rightarrow> config\<lparr>Config.UpdatePolicy := p\<rparr>
      | None \<Rightarrow>
          (case ClusterSpec.UpdatePolicy (Cluster.Spec cluster) of
             Some p \<Rightarrow> config\<lparr>Config.UpdatePolicy := p\<rparr>
           | None \<Rightarrow> config\<lparr>Config.UpdatePolicy := UpdatePolicyAutomatic kops\<rparr>))"

text \<open>Lines 211-213, the default machine type: element 0 of the split machine type,
  an index that panics on an empty slice; \<^verbatim>\<open>aws.String\<close> returns a pointer to its
  argument.\<close>

definition NewConfig_machineType ::
  "Cluster \<Rightarrow> InstanceGroup \<Rightarrow> Config \<Rightarrow> panic + Config" where
  "NewConfig_machineType cluster instanceGroup config =
     (case NetworkingSpec.AmazonVPC (ClusterSpec.Networking (Cluster.Spec cluster)) of
        None \<Rightarrow> Inr config
      | Some vpc \<Rightarrow>
          (case strings_Split
                  (InstanceGroupSpec.MachineType (InstanceGroup.Spec instanceGroup)) (CHR '','') of
             [] \<Rightarrow> Inl IndexOutOfRange
           | m # ms \<Rightarrow> Inr (config\<lparr>Config.DefaultMachineType := Some m\<rparr>)))"

text \<open>Lines 215-227: the node name, the kubelet configuration and the API server
  configuration.\<close>

definition NewConfig_nodeName :: "kops_pkg \<Rightarrow> Cluster \<Rightarrow> Config \<Rightarrow> Config" where
  "NewConfig_nodeName kops cluster config =
     (if UsesInstanceIDForNodeName kops cluster
      then config\<lparr>Config.UseInstanceIDForNodeName := True\<rparr>
      else config)"

definition NewConfig_kubelet :: "InstanceGroup \<Rightarrow> Config \<Rightarrow> Config" where
  "NewConfig_kubelet instanceGroup config =
     (case InstanceGroupSpec.Kubelet (InstanceGroup.Spec instanceGroup) of
        None \<Rightarrow> config
      | Some k \<Rightarrow> config\<lparr>Config.KubeletConfig := k\<rparr>)"

definition NewConfig_apiServer ::
  "kops_pkg \<Rightarrow> Cluster \<Rightarrow> InstanceGroup \<Rightarrow> Config \<Rightarrow> Config" where
  "NewConfig_apiServer kops cluster instanceGroup config =
     (if HasAPIServer kops instanceGroup
      then config
             \<lparr>Config.APIServerConfig :=
                Some (APIServerConfig_zero
                        \<lparr>APIServerConfig.KubeAPIServer :=
                           ClusterSpec.KubeAPIServer (Cluster.Spec cluster)\<rparr>)\<rparr>
      else config)"

text \<open>\<^verbatim>\<open>NewConfig\<close> (lines 159-230): the statements above in the order of the source.
  The arguments are the values that the pointers \<^verbatim>\<open>cluster\<close> and \<^verbatim>\<open>instanceGroup\<close>
  point to (\<^verbatim>\<open>NewConfig\<close> reads through both on lines 160 and 162, before anything
  else), and the two results are the values that the returned pointers point to.\<close>

definition NewConfig ::
  "kops_pkg \<Rightarrow> Cluster \<Rightarrow> InstanceGroup \<Rightarrow> panic + (Config \<times> BootConfig)" where
  "NewConfig kops cluster instanceGroup =
     (let config = NewConfig_config cluster instanceGroup;
          bootConfig = NewConfig_bootConfig kops cluster instanceGroup
      in case NewConfig_aws kops cluster instanceGroup config of
           Inl e \<Rightarrow> Inl e
         | Inr config \<Rightarrow>
             (let config = NewConfig_gce cluster config;
                  config = NewConfig_updatePolicy kops cluster instanceGroup config
              in case NewConfig_machineType cluster instanceGroup config of
                   Inl e \<Rightarrow> Inl e
                 | Inr config \<Rightarrow>
                     (let config = NewConfig_nodeName kops cluster config;
                          config = NewConfig_kubelet instanceGroup config;
                          config = NewConfig_apiServer kops cluster instanceGroup config
                      in Inr (config, bootConfig))))"

section \<open>Memory model of the slices that NewConfig builds\<close>

text \<open>
  \<^verbatim>\<open>NewConfig\<close> receives pointers to the cluster and to the instance group, and the
  slices in them share their backing arrays with the caller. The only statements of
  \<^verbatim>\<open>config.go\<close> that write to memory other than the local variables \<^verbatim>\<open>config\<close>
  and \<^verbatim>\<open>bootConfig\<close> are the \<^verbatim>\<open>append\<close> calls of \<^verbatim>\<open>filterHooks\<close>,
  \<^verbatim>\<open>filterFileAssets\<close> and line 171. This section models them on an explicit store.

  The store of one element type is the list of the backing arrays allocated so far: the
  address of an array is its index, and an allocation adds an array at the end. A slice
  header is the address of its backing array (\<open>None\<close> for the \<^verbatim>\<open>nil\<close> slice), the
  offset of its first element in that array, its length and its capacity. The elements
  keep their \<^verbatim>\<open>Roles\<close> as values: no statement of \<^verbatim>\<open>config.go\<close> writes to an
  element of a \<^verbatim>\<open>Roles\<close> slice.
\<close>

record slice =
  array :: "nat option"
  off :: nat
  len :: nat
  cap :: nat

definition nil_slice :: slice where
  "nil_slice = \<lparr>array = None, off = 0, len = 0, cap = 0\<rparr>"

text \<open>A slice header is well formed in a store when its window lies inside an allocated
  array; the \<^verbatim>\<open>nil\<close> slice has capacity 0.\<close>

definition slice_ok :: "'a list list \<Rightarrow> slice \<Rightarrow> bool" where
  "slice_ok mem s =
     (len s \<le> cap s \<and>
      (case array s of
         None \<Rightarrow> cap s = 0
       | Some a \<Rightarrow> a < length mem \<and> off s + cap s \<le> length (mem ! a)))"

text \<open>The elements of a slice, read from the store.\<close>

definition slice_elems :: "'a list list \<Rightarrow> slice \<Rightarrow> 'a list" where
  "slice_elems mem s =
     (case array s of
        None \<Rightarrow> []
      | Some a \<Rightarrow> if a < length mem then take (len s) (drop (off s) (mem ! a)) else [])"

text \<open>\<^verbatim>\<open>s[i]\<close>: \<open>None\<close> when the index is not below the length of the slice or the
  cell is not in the store.\<close>

definition slice_index :: "'a list list \<Rightarrow> slice \<Rightarrow> nat \<Rightarrow> 'a option" where
  "slice_index mem s i =
     (case array s of
        None \<Rightarrow> None
      | Some a \<Rightarrow>
          if i < len s \<and> a < length mem \<and> off s + i < length (mem ! a)
          then Some (mem ! a ! (off s + i)) else None)"

text \<open>
  The built-in \<^verbatim>\<open>append(s, xs...)\<close>. When the capacity of \<open>s\<close> fits the new
  elements they are written into its backing array, after its last element; otherwise a
  new array is allocated that holds the elements of \<open>s\<close>, then \<open>xs\<close>, then zero
  values up to the new capacity. The new capacity is chosen by the Go runtime: it is the
  parameter \<open>growcap\<close> (old capacity, needed length), and at least the needed length.
\<close>

definition go_append ::
  "(nat \<Rightarrow> nat \<Rightarrow> nat) \<Rightarrow> 'a \<Rightarrow> 'a list list \<Rightarrow> slice \<Rightarrow> 'a list \<Rightarrow> slice \<times> 'a list list" where
  "go_append growcap zero mem s xs =
     (let n = len s + length xs
      in if n \<le> cap s
         then (case array s of
                 None \<Rightarrow> (s, mem)
               | Some a \<Rightarrow>
                   (s\<lparr>len := n\<rparr>,
                    mem[a := take (off s + len s) (mem ! a) @ xs @ drop (off s + n) (mem ! a)]))
         else (let newcap = max n (growcap (cap s) n)
               in (\<lparr>array = Some (length mem), off = 0, len = n, cap = newcap\<rparr>,
                   mem @ [slice_elems mem s @ xs @ replicate (newcap - n) zero])))"

definition HookSpec_zero :: HookSpec where
  "HookSpec_zero = \<lparr>HookSpec.Roles = [], HookSpec.Other = []\<rparr>"

definition FileAssetSpec_zero :: FileAssetSpec where
  "FileAssetSpec_zero = \<lparr>FileAssetSpec.Roles = [], FileAssetSpec.Other = []\<rparr>"

text \<open>
  \<^verbatim>\<open>filterHooks\<close> on the store: \<^verbatim>\<open>range h\<close> visits the indices below \<^verbatim>\<open>len(h)\<close>
  and copies the element into \<^verbatim>\<open>hook\<close>; the assignment \<^verbatim>\<open>hook.Roles = nil\<close> changes
  this copy, and \<^verbatim>\<open>append\<close> stores it.
\<close>

function filterHooks_mem_loop ::
  "(nat \<Rightarrow> nat \<Rightarrow> nat) \<Rightarrow> HookSpec list list \<Rightarrow> slice \<Rightarrow> InstanceGroupRole \<Rightarrow> nat \<Rightarrow> slice
     \<Rightarrow> panic + (slice \<times> HookSpec list list)" where
  "filterHooks_mem_loop growcap mem h role i hooks =
     (if i < len h
      then (case slice_index mem h i of
              None \<Rightarrow> Inl IndexOutOfRange
            | Some hook \<Rightarrow>
                if 0 < length (HookSpec.Roles hook) \<and> \<not> containsRole role (HookSpec.Roles hook)
                then filterHooks_mem_loop growcap mem h role (Suc i) hooks
                else (case go_append growcap HookSpec_zero mem hooks
                             [hook\<lparr>HookSpec.Roles := []\<rparr>] of
                        (hooks', mem') \<Rightarrow> filterHooks_mem_loop growcap mem' h role (Suc i) hooks'))
      else Inr (hooks, mem))"
  by pat_completeness auto
termination
  by (relation "measure (\<lambda>(growcap, mem, h, role, i, hooks). len h - i)") auto

declare filterHooks_mem_loop.simps [simp del]

definition filterHooks_mem ::
  "(nat \<Rightarrow> nat \<Rightarrow> nat) \<Rightarrow> HookSpec list list \<Rightarrow> slice \<Rightarrow> InstanceGroupRole
     \<Rightarrow> panic + (slice \<times> HookSpec list list)" where
  "filterHooks_mem growcap mem h role = filterHooks_mem_loop growcap mem h role 0 nil_slice"

function filterFileAssets_mem_loop ::
  "(nat \<Rightarrow> nat \<Rightarrow> nat) \<Rightarrow> FileAssetSpec list list \<Rightarrow> slice \<Rightarrow> InstanceGroupRole \<Rightarrow> nat \<Rightarrow> slice
     \<Rightarrow> panic + (slice \<times> FileAssetSpec list list)" where
  "filterFileAssets_mem_loop growcap mem f role i fileAssets =
     (if i < len f
      then (case slice_index mem f i of
              None \<Rightarrow> Inl IndexOutOfRange
            | Some fileAsset \<Rightarrow>
                if 0 < length (FileAssetSpec.Roles fileAsset)
                   \<and> \<not> containsRole role (FileAssetSpec.Roles fileAsset)
                then filterFileAssets_mem_loop growcap mem f role (Suc i) fileAssets
                else (case go_append growcap FileAssetSpec_zero mem fileAssets
                             [fileAsset\<lparr>FileAssetSpec.Roles := []\<rparr>] of
                        (fileAssets', mem') \<Rightarrow>
                          filterFileAssets_mem_loop growcap mem' f role (Suc i) fileAssets'))
      else Inr (fileAssets, mem))"
  by pat_completeness auto
termination
  by (relation "measure (\<lambda>(growcap, mem, f, role, i, fileAssets). len f - i)") auto

declare filterFileAssets_mem_loop.simps [simp del]

definition filterFileAssets_mem ::
  "(nat \<Rightarrow> nat \<Rightarrow> nat) \<Rightarrow> FileAssetSpec list list \<Rightarrow> slice \<Rightarrow> InstanceGroupRole
     \<Rightarrow> panic + (slice \<times> FileAssetSpec list list)" where
  "filterFileAssets_mem growcap mem f role =
     filterFileAssets_mem_loop growcap mem f role 0 nil_slice"

text \<open>
  The store of \<^verbatim>\<open>NewConfig\<close>: the backing arrays of type \<^verbatim>\<open>[]kops.HookSpec\<close> and
  those of type \<^verbatim>\<open>[]kops.FileAssetSpec\<close>.
\<close>

record memory =
  hookArrays :: "HookSpec list list"
  fileAssetArrays :: "FileAssetSpec list list"

text \<open>
  The statements of \<^verbatim>\<open>NewConfig\<close> that allocate or write, in the order in which they
  run: \<^verbatim>\<open>filterHooks\<close> on the hooks of the cluster (line 162) and of the instance group
  (line 163), then in the composite literal (line 171) \<^verbatim>\<open>filterFileAssets\<close> on the file
  assets of the instance group and of the cluster, and \<^verbatim>\<open>append\<close> of the second result
  to the first. The arguments are the slice headers found in \<^verbatim>\<open>cluster.Spec.Hooks\<close>,
  \<^verbatim>\<open>instanceGroup.Spec.Hooks\<close>, \<^verbatim>\<open>instanceGroup.Spec.FileAssets\<close> and
  \<^verbatim>\<open>cluster.Spec.FileAssets\<close>, and \<^verbatim>\<open>instanceGroup.Spec.Role\<close>; the results are the
  headers stored in \<^verbatim>\<open>config.Hooks[0]\<close>, \<^verbatim>\<open>config.Hooks[1]\<close> and
  \<^verbatim>\<open>config.FileAssets\<close>, and the store. The two element types may grow by different
  capacities (\<open>growH\<close>, \<open>growF\<close>).
\<close>

definition NewConfig_mem ::
  "(nat \<Rightarrow> nat \<Rightarrow> nat) \<Rightarrow> (nat \<Rightarrow> nat \<Rightarrow> nat) \<Rightarrow> memory \<Rightarrow> slice \<Rightarrow> slice \<Rightarrow> slice \<Rightarrow> slice
     \<Rightarrow> InstanceGroupRole \<Rightarrow> panic + ((slice \<times> slice \<times> slice) \<times> memory)" where
  "NewConfig_mem growH growF mem clusterHooksIn igHooksIn igFileAssetsIn clusterFileAssetsIn role =
     (case filterHooks_mem growH (hookArrays mem) clusterHooksIn role of
        Inl e \<Rightarrow> Inl e
      | Inr (clusterHooks, hmem1) \<Rightarrow>
     (case filterHooks_mem growH hmem1 igHooksIn role of
        Inl e \<Rightarrow> Inl e
      | Inr (igHooks, hmem2) \<Rightarrow>
     (case filterFileAssets_mem growF (fileAssetArrays mem) igFileAssetsIn role of
        Inl e \<Rightarrow> Inl e
      | Inr (igFileAssets, fmem1) \<Rightarrow>
     (case filterFileAssets_mem growF fmem1 clusterFileAssetsIn role of
        Inl e \<Rightarrow> Inl e
      | Inr (clusterFileAssets, fmem2) \<Rightarrow>
     (case go_append growF FileAssetSpec_zero fmem2 igFileAssets
             (slice_elems fmem2 clusterFileAssets) of
        (fileAssets, fmem3) \<Rightarrow>
          Inr ((igHooks, clusterHooks, fileAssets),
               \<lparr>hookArrays = hmem2, fileAssetArrays = fmem3\<rparr>))))))"

text \<open>A slice is fresh for \<open>n\<close> when it is \<^verbatim>\<open>nil\<close> or its backing array was allocated
  at address \<open>n\<close> or later; it is below \<open>n\<close> when it is \<^verbatim>\<open>nil\<close> or its backing
  array has an address less than \<open>n\<close>.\<close>

definition slice_fresh :: "nat \<Rightarrow> slice \<Rightarrow> bool" where
  "slice_fresh n s = (case array s of None \<Rightarrow> True | Some a \<Rightarrow> n \<le> a)"

definition slice_below :: "nat \<Rightarrow> slice \<Rightarrow> bool" where
  "slice_below n s = (case array s of None \<Rightarrow> True | Some a \<Rightarrow> a < n)"

text \<open>
  The store holds the inputs of \<^verbatim>\<open>NewConfig\<close>: the four slice headers are well formed
  and their elements are the hooks and the file assets of the cluster and of the instance
  group.
\<close>

definition inputs_in_memory ::
  "memory \<Rightarrow> slice \<Rightarrow> slice \<Rightarrow> slice \<Rightarrow> slice \<Rightarrow> Cluster \<Rightarrow> InstanceGroup \<Rightarrow> bool" where
  "inputs_in_memory mem clusterHooksIn igHooksIn igFileAssetsIn clusterFileAssetsIn cluster ig =
     (slice_ok (hookArrays mem) clusterHooksIn
      \<and> slice_ok (hookArrays mem) igHooksIn
      \<and> slice_ok (fileAssetArrays mem) igFileAssetsIn
      \<and> slice_ok (fileAssetArrays mem) clusterFileAssetsIn
      \<and> slice_elems (hookArrays mem) clusterHooksIn = ClusterSpec.Hooks (Cluster.Spec cluster)
      \<and> slice_elems (hookArrays mem) igHooksIn = InstanceGroupSpec.Hooks (InstanceGroup.Spec ig)
      \<and> slice_elems (fileAssetArrays mem) igFileAssetsIn
          = InstanceGroupSpec.FileAssets (InstanceGroup.Spec ig)
      \<and> slice_elems (fileAssetArrays mem) clusterFileAssetsIn
          = ClusterSpec.FileAssets (Cluster.Spec cluster))"

section \<open>The role rule in the words of the specification\<close>

text \<open>
  ``A hook with an empty role list applies to all roles; otherwise it applies only if the
  instance group's role appears in the hook's role list'', and likewise for file assets.
\<close>

definition applies_to_role :: "InstanceGroupRole \<Rightarrow> InstanceGroupRole list \<Rightarrow> bool" where
  "applies_to_role role roles = (roles = [] \<or> role \<in> set roles)"

section \<open>Example inputs\<close>

text \<open>
  One choice of the methods and constants of package \<^verbatim>\<open>kops\<close>, and small clusters
  and instance groups, on which the theorems below are instantiated. The roles are written
  as in the specification (\<^verbatim>\<open>worker\<close>, \<^verbatim>\<open>control-plane\<close>).
\<close>

definition kops_example :: kops_pkg where
  "kops_example =
     \<lparr>GetCloudProvider =
        (\<lambda>spec. if CloudProviderSpec.AWS (ClusterSpec.CloudProvider spec) \<noteq> None then ''aws''
                else if CloudProviderSpec.GCE (ClusterSpec.CloudProvider spec) \<noteq> None then ''gce''
                else []),
      HasAPIServer = (\<lambda>ig. InstanceGroupSpec.Role (InstanceGroup.Spec ig) = ''control-plane''),
      IsKubernetesLT = (\<lambda>cluster version. False),
      ResolveDefaults =
        (\<lambda>warmPool ig. case warmPool of
                          None \<Rightarrow> Some \<lparr>WarmPoolSpec.EnableLifecycleHook = False,
                                        WarmPoolSpec.Other = []\<rparr>
                        | Some w \<Rightarrow> Some w),
      IsEnabled = (\<lambda>warmPool. warmPool \<noteq> None),
      CloudProviderAWS = ''aws'',
      UpdatePolicyAutomatic = ''automatic''\<rparr>"

definition hook_all :: HookSpec where
  "hook_all = \<lparr>HookSpec.Roles = [], HookSpec.Other = [(''name'', ''all.service'')]\<rparr>"

definition hook_worker :: HookSpec where
  "hook_worker =
     \<lparr>HookSpec.Roles = [''worker''], HookSpec.Other = [(''name'', ''worker.service'')]\<rparr>"

definition hook_control_plane :: HookSpec where
  "hook_control_plane =
     \<lparr>HookSpec.Roles = [''control-plane''],
      HookSpec.Other = [(''name'', ''control-plane.service'')]\<rparr>"

definition asset_all :: FileAssetSpec where
  "asset_all = \<lparr>FileAssetSpec.Roles = [], FileAssetSpec.Other = [(''name'', ''all.conf'')]\<rparr>"

definition asset_worker :: FileAssetSpec where
  "asset_worker =
     \<lparr>FileAssetSpec.Roles = [''worker''], FileAssetSpec.Other = [(''name'', ''worker.conf'')]\<rparr>"

text \<open>A cluster on AWS with an external cloud-controller-manager and AmazonVPC networking;
  its hook has no roles.\<close>

definition cluster_aws_example :: Cluster where
  "cluster_aws_example =
     \<lparr>Cluster.ObjectMeta = \<lparr>ObjectMeta.Name = ''example.k8s.local'', ObjectMeta.Other = []\<rparr>,
      Cluster.Spec =
        \<lparr>ClusterSpec.Hooks = [hook_all],
         ClusterSpec.FileAssets = [asset_all, asset_worker],
         ClusterSpec.ContainerRuntime = ''containerd'',
         ClusterSpec.CloudProvider =
           \<lparr>CloudProviderSpec.AWS =
              Some \<lparr>AWSSpec.WarmPool = None,
                    AWSSpec.DisableSecurityGroupIngress = Some True,
                    AWSSpec.ElbSecurityGroup = Some ''sg-0123'',
                    AWSSpec.NodeIPFamilies = [''ipv4''],
                    AWSSpec.Other = []\<rparr>,
            CloudProviderSpec.GCE = None,
            CloudProviderSpec.Other = []\<rparr>,
         ClusterSpec.UpdatePolicy = None,
         ClusterSpec.Networking =
           \<lparr>NetworkingSpec.AmazonVPC = Some [], NetworkingSpec.Other = []\<rparr>,
         ClusterSpec.ExternalCloudControllerManager = Some [],
         ClusterSpec.KubeAPIServer = Some [(''image'', ''kube-apiserver'')],
         ClusterSpec.Other = []\<rparr>\<rparr>"

text \<open>A cluster on GCE with node tags.\<close>

definition cluster_gce_example :: Cluster where
  "cluster_gce_example =
     \<lparr>Cluster.ObjectMeta = \<lparr>ObjectMeta.Name = ''example.k8s.local'', ObjectMeta.Other = []\<rparr>,
      Cluster.Spec =
        \<lparr>ClusterSpec.Hooks = [],
         ClusterSpec.FileAssets = [],
         ClusterSpec.ContainerRuntime = ''containerd'',
         ClusterSpec.CloudProvider =
           \<lparr>CloudProviderSpec.AWS = None,
            CloudProviderSpec.GCE =
              Some \<lparr>GCESpec.Multizone = Some True,
                    GCESpec.NodeTags = Some ''example-k8s-local-node'',
                    GCESpec.NodeInstancePrefix = Some ''example'',
                    GCESpec.Other = []\<rparr>,
            CloudProviderSpec.Other = []\<rparr>,
         ClusterSpec.UpdatePolicy = Some ''external'',
         ClusterSpec.Networking =
           \<lparr>NetworkingSpec.AmazonVPC = None, NetworkingSpec.Other = []\<rparr>,
         ClusterSpec.ExternalCloudControllerManager = None,
         ClusterSpec.KubeAPIServer = None,
         ClusterSpec.Other = []\<rparr>\<rparr>"

text \<open>An instance group of role \<^verbatim>\<open>worker\<close> whose hook is for \<^verbatim>\<open>control-plane\<close>.\<close>

definition ig_worker_example :: InstanceGroup where
  "ig_worker_example =
     \<lparr>InstanceGroup.ObjectMeta = \<lparr>ObjectMeta.Name = ''nodes'', ObjectMeta.Other = []\<rparr>,
      InstanceGroup.Spec =
        \<lparr>InstanceGroupSpec.Role = ''worker'',
         InstanceGroupSpec.Hooks = [hook_control_plane],
         InstanceGroupSpec.FileAssets = [],
         InstanceGroupSpec.SysctlParameters = [],
         InstanceGroupSpec.VolumeMounts = [],
         InstanceGroupSpec.UpdatePolicy = None,
         InstanceGroupSpec.MachineType = ''m5.large,m5.xlarge'',
         InstanceGroupSpec.Kubelet = None,
         InstanceGroupSpec.Other = []\<rparr>\<rparr>"

text \<open>An instance group of role \<^verbatim>\<open>control-plane\<close>.\<close>

definition ig_control_plane_example :: InstanceGroup where
  "ig_control_plane_example =
     \<lparr>InstanceGroup.ObjectMeta =
        \<lparr>ObjectMeta.Name = ''control-plane-main'', ObjectMeta.Other = []\<rparr>,
      InstanceGroup.Spec =
        \<lparr>InstanceGroupSpec.Role = ''control-plane'',
         InstanceGroupSpec.Hooks = [hook_worker, hook_all],
         InstanceGroupSpec.FileAssets = [asset_worker],
         InstanceGroupSpec.SysctlParameters = [],
         InstanceGroupSpec.VolumeMounts = [],
         InstanceGroupSpec.UpdatePolicy = Some ''external'',
         InstanceGroupSpec.MachineType = ''m5.large'',
         InstanceGroupSpec.Kubelet = None,
         InstanceGroupSpec.Other = []\<rparr>\<rparr>"

text \<open>The worker instance group with an update policy that is set, to the empty string.\<close>

definition ig_empty_policy_example :: InstanceGroup where
  "ig_empty_policy_example =
     \<lparr>InstanceGroup.ObjectMeta = \<lparr>ObjectMeta.Name = ''nodes'', ObjectMeta.Other = []\<rparr>,
      InstanceGroup.Spec =
        \<lparr>InstanceGroupSpec.Role = ''worker'',
         InstanceGroupSpec.Hooks = [hook_control_plane],
         InstanceGroupSpec.FileAssets = [],
         InstanceGroupSpec.SysctlParameters = [],
         InstanceGroupSpec.VolumeMounts = [],
         InstanceGroupSpec.UpdatePolicy = Some [],
         InstanceGroupSpec.MachineType = ''m5.large,m5.xlarge'',
         InstanceGroupSpec.Kubelet = None,
         InstanceGroupSpec.Other = []\<rparr>\<rparr>"

text \<open>
  A store holding the slices of \<open>cluster_aws_example\<close> and \<open>ig_worker_example\<close>: the
  hooks of the cluster in an array with one spare cell, the hook of the instance group,
  the file assets of the cluster; the file assets of the instance group are \<^verbatim>\<open>nil\<close>.
\<close>

definition memory_example :: memory where
  "memory_example =
     \<lparr>hookArrays = [[hook_all, HookSpec_zero], [hook_control_plane]],
      fileAssetArrays = [[asset_all, asset_worker]]\<rparr>"

definition clusterHooks_example :: slice where
  "clusterHooks_example = \<lparr>array = Some 0, off = 0, len = 1, cap = 2\<rparr>"

definition igHooks_example :: slice where
  "igHooks_example = \<lparr>array = Some 1, off = 0, len = 1, cap = 1\<rparr>"

definition clusterFileAssets_example :: slice where
  "clusterFileAssets_example = \<lparr>array = Some 0, off = 0, len = 2, cap = 2\<rparr>"

text \<open>Another store that holds the same elements at other places: both hook slices are
  windows of one array, and the file assets of the instance group are an empty slice
  that is not \<^verbatim>\<open>nil\<close>.\<close>

definition memory_example2 :: memory where
  "memory_example2 =
     \<lparr>hookArrays = [[hook_control_plane, hook_all]],
      fileAssetArrays = [[FileAssetSpec_zero, asset_all, asset_worker, FileAssetSpec_zero]]\<rparr>"

definition clusterHooks_example2 :: slice where
  "clusterHooks_example2 = \<lparr>array = Some 0, off = 1, len = 1, cap = 1\<rparr>"

definition igHooks_example2 :: slice where
  "igHooks_example2 = \<lparr>array = Some 0, off = 0, len = 1, cap = 2\<rparr>"

definition igFileAssets_example2 :: slice where
  "igFileAssets_example2 = \<lparr>array = Some 0, off = 0, len = 0, cap = 4\<rparr>"

definition clusterFileAssets_example2 :: slice where
  "clusterFileAssets_example2 = \<lparr>array = Some 0, off = 1, len = 2, cap = 3\<rparr>"

text \<open>Three capacity policies: doubling, exactly the needed length, and one cell more
  than needed.\<close>

definition growcap_double :: "nat \<Rightarrow> nat \<Rightarrow> nat" where
  "growcap_double oldcap needed = 2 * oldcap"

definition growcap_exact :: "nat \<Rightarrow> nat \<Rightarrow> nat" where
  "growcap_exact oldcap needed = needed"

definition growcap_spare :: "nat \<Rightarrow> nat \<Rightarrow> nat" where
  "growcap_spare oldcap needed = needed + 1"

section \<open>The role filters as list functions\<close>

lemma containsRole_set: "containsRole v list = (v \<in> set list)"
  by (induction list) auto

lemma filterHooks_loop_eq:
  "filterHooks_loop h role hooks =
     hooks @ map (\<lambda>hook. hook\<lparr>HookSpec.Roles := []\<rparr>)
               (filter (\<lambda>hook. HookSpec.Roles hook = [] \<or> role \<in> set (HookSpec.Roles hook)) h)"
  by (induction h arbitrary: hooks) (auto simp: containsRole_set)

lemma filterFileAssets_loop_eq:
  "filterFileAssets_loop f role acc =
     acc @ map (\<lambda>a. a\<lparr>FileAssetSpec.Roles := []\<rparr>)
               (filter (\<lambda>a. FileAssetSpec.Roles a = [] \<or> role \<in> set (FileAssetSpec.Roles a)) f)"
  by (induction f arbitrary: acc) (auto simp: containsRole_set)

lemma filterHooks_eq:
  "filterHooks h role =
     map (\<lambda>hook. hook\<lparr>HookSpec.Roles := []\<rparr>)
       (filter (\<lambda>hook. applies_to_role role (HookSpec.Roles hook)) h)"
  by (simp add: filterHooks_def filterHooks_loop_eq applies_to_role_def)

lemma filterFileAssets_eq:
  "filterFileAssets f role =
     map (\<lambda>fileAsset. fileAsset\<lparr>FileAssetSpec.Roles := []\<rparr>)
       (filter (\<lambda>fileAsset. applies_to_role role (FileAssetSpec.Roles fileAsset)) f)"
  by (simp add: filterFileAssets_def filterFileAssets_loop_eq applies_to_role_def)

section \<open>strings.Split\<close>

lemma strings_Split_ne: "strings_Split s sep \<noteq> []"
  by (subst strings_Split.simps) simp

lemma takeWhile_absent: "sep \<notin> set s \<Longrightarrow> takeWhile (\<lambda>c. c \<noteq> sep) s = s"
  by (induction s) auto

lemma strings_Split_Cons: "\<exists>ms. strings_Split s sep = takeWhile (\<lambda>c. c \<noteq> sep) s # ms"
  by (subst strings_Split.simps) (simp add: takeWhile_absent)

section \<open>The result of NewConfig in closed form\<close>

lemma NewConfig_aws_eq:
  "NewConfig_aws kops cluster ig config =
    (if (case CloudProviderSpec.AWS (ClusterSpec.CloudProvider (Cluster.Spec cluster)) of
           None \<Rightarrow> False
         | Some aws \<Rightarrow> IsEnabled kops (ResolveDefaults kops (AWSSpec.WarmPool aws) ig)
                       \<and> ResolveDefaults kops (AWSSpec.WarmPool aws) ig = None)
     then Inl NilPointerDereference
     else Inr (config
    \<lparr>Config.EnableLifecycleHook :=
       (case CloudProviderSpec.AWS (ClusterSpec.CloudProvider (Cluster.Spec cluster)) of
          None \<Rightarrow> Config.EnableLifecycleHook config
        | Some aws \<Rightarrow>
            (case ResolveDefaults kops (AWSSpec.WarmPool aws) ig of
               None \<Rightarrow> Config.EnableLifecycleHook config
             | Some w \<Rightarrow>
                 if IsEnabled kops (Some w) \<and> WarmPoolSpec.EnableLifecycleHook w then True
                 else Config.EnableLifecycleHook config)),
     Config.DisableSecurityGroupIngress :=
       (case CloudProviderSpec.AWS (ClusterSpec.CloudProvider (Cluster.Spec cluster)) of
          None \<Rightarrow> Config.DisableSecurityGroupIngress config
        | Some aws \<Rightarrow>
            if HasAPIServer kops ig \<or> IsKubernetesLT kops cluster ''1.24''
            then AWSSpec.DisableSecurityGroupIngress aws
            else Config.DisableSecurityGroupIngress config),
     Config.ElbSecurityGroup :=
       (case CloudProviderSpec.AWS (ClusterSpec.CloudProvider (Cluster.Spec cluster)) of
          None \<Rightarrow> Config.ElbSecurityGroup config
        | Some aws \<Rightarrow>
            if HasAPIServer kops ig \<or> IsKubernetesLT kops cluster ''1.24''
            then AWSSpec.ElbSecurityGroup aws
            else Config.ElbSecurityGroup config),
     Config.NodeIPFamilies :=
       (case CloudProviderSpec.AWS (ClusterSpec.CloudProvider (Cluster.Spec cluster)) of
          None \<Rightarrow> Config.NodeIPFamilies config
        | Some aws \<Rightarrow>
            if HasAPIServer kops ig \<or> IsKubernetesLT kops cluster ''1.24''
            then AWSSpec.NodeIPFamilies aws
            else Config.NodeIPFamilies config)\<rparr>))"
proof (cases "CloudProviderSpec.AWS (ClusterSpec.CloudProvider (Cluster.Spec cluster))")
  case None
  then show ?thesis
    by (simp add: NewConfig_aws_def)
next
  case (Some aws)
  show ?thesis
  proof (cases "ResolveDefaults kops (AWSSpec.WarmPool aws) ig")
    case None
    then show ?thesis
      using Some by (simp add: NewConfig_aws_def Let_def)
  next
    case (Some w)
    then show ?thesis
      using \<open>CloudProviderSpec.AWS (ClusterSpec.CloudProvider (Cluster.Spec cluster)) = Some aws\<close>
      by (simp add: NewConfig_aws_def Let_def)
  qed
qed

lemma NewConfig_gce_eq:
  "NewConfig_gce cluster config = config
    \<lparr>Config.Multizone :=
       (case CloudProviderSpec.GCE (ClusterSpec.CloudProvider (Cluster.Spec cluster)) of
          None \<Rightarrow> Config.Multizone config | Some gce \<Rightarrow> GCESpec.Multizone gce),
     Config.NodeTags :=
       (case CloudProviderSpec.GCE (ClusterSpec.CloudProvider (Cluster.Spec cluster)) of
          None \<Rightarrow> Config.NodeTags config | Some gce \<Rightarrow> GCESpec.NodeTags gce),
     Config.NodeInstancePrefix :=
       (case CloudProviderSpec.GCE (ClusterSpec.CloudProvider (Cluster.Spec cluster)) of
          None \<Rightarrow> Config.NodeInstancePrefix config | Some gce \<Rightarrow> GCESpec.NodeInstancePrefix gce)\<rparr>"
  by (simp add: NewConfig_gce_def split: option.splits)

lemma NewConfig_updatePolicy_eq:
  "NewConfig_updatePolicy kops cluster ig config = config
    \<lparr>Config.UpdatePolicy :=
       (case InstanceGroupSpec.UpdatePolicy (InstanceGroup.Spec ig) of
          Some p \<Rightarrow> p
        | None \<Rightarrow>
            (case ClusterSpec.UpdatePolicy (Cluster.Spec cluster) of
               Some p \<Rightarrow> p
             | None \<Rightarrow> UpdatePolicyAutomatic kops))\<rparr>"
  by (simp add: NewConfig_updatePolicy_def split: option.splits)

lemma NewConfig_machineType_eq:
  "NewConfig_machineType cluster ig config = Inr (config
    \<lparr>Config.DefaultMachineType :=
       (case NetworkingSpec.AmazonVPC (ClusterSpec.Networking (Cluster.Spec cluster)) of
          None \<Rightarrow> Config.DefaultMachineType config
        | Some vpc \<Rightarrow>
            Some (takeWhile (\<lambda>c. c \<noteq> CHR '','')
                    (InstanceGroupSpec.MachineType (InstanceGroup.Spec ig))))\<rparr>)"
  using strings_Split_Cons[of "InstanceGroupSpec.MachineType (InstanceGroup.Spec ig)" "CHR '',''"]
  by (auto simp: NewConfig_machineType_def split: option.splits)

lemma NewConfig_nodeName_eq:
  "NewConfig_nodeName kops cluster config = config
    \<lparr>Config.UseInstanceIDForNodeName :=
       (UsesInstanceIDForNodeName kops cluster \<or> Config.UseInstanceIDForNodeName config)\<rparr>"
  by (simp add: NewConfig_nodeName_def)

lemma NewConfig_kubelet_eq:
  "NewConfig_kubelet ig config = config
    \<lparr>Config.KubeletConfig :=
       (case InstanceGroupSpec.Kubelet (InstanceGroup.Spec ig) of
          None \<Rightarrow> Config.KubeletConfig config | Some k \<Rightarrow> k)\<rparr>"
  by (simp add: NewConfig_kubelet_def split: option.splits)

lemma NewConfig_apiServer_eq:
  "NewConfig_apiServer kops cluster ig config = config
    \<lparr>Config.APIServerConfig :=
       (if HasAPIServer kops ig
        then Some \<lparr>APIServerConfig.KubeAPIServer = ClusterSpec.KubeAPIServer (Cluster.Spec cluster),
                   EncryptionConfigSecretHash = [], ServiceAccountPublicKeys = []\<rparr>
        else Config.APIServerConfig config)\<rparr>"
  by (simp add: NewConfig_apiServer_def APIServerConfig_zero_def)

lemma NewConfig_eq:
  "NewConfig kops cluster ig =
    (if (case CloudProviderSpec.AWS (ClusterSpec.CloudProvider (Cluster.Spec cluster)) of
           None \<Rightarrow> False
         | Some aws \<Rightarrow> IsEnabled kops (ResolveDefaults kops (AWSSpec.WarmPool aws) ig)
                       \<and> ResolveDefaults kops (AWSSpec.WarmPool aws) ig = None)
     then Inl NilPointerDereference
     else Inr
      (\<lparr>Assets = Map.empty, Images = Map.empty,
        ClusterName = ObjectMeta.Name (Cluster.ObjectMeta cluster),
        Channels = [], ApiserverAdditionalIPs = [], Packages = [], EtcdManifests = [],
        CAs = Map.empty, KeypairIDs = Map.empty,
        DefaultMachineType =
          (case NetworkingSpec.AmazonVPC (ClusterSpec.Networking (Cluster.Spec cluster)) of
             None \<Rightarrow> None
           | Some vpc \<Rightarrow>
               Some (takeWhile (\<lambda>c. c \<noteq> CHR '','')
                       (InstanceGroupSpec.MachineType (InstanceGroup.Spec ig)))),
        EnableLifecycleHook =
          (case CloudProviderSpec.AWS (ClusterSpec.CloudProvider (Cluster.Spec cluster)) of
             None \<Rightarrow> False
           | Some aws \<Rightarrow>
               (case ResolveDefaults kops (AWSSpec.WarmPool aws) ig of
                  None \<Rightarrow> False
                | Some w \<Rightarrow> IsEnabled kops (Some w) \<and> WarmPoolSpec.EnableLifecycleHook w)),
        StaticManifests = [],
        KubeletConfig =
          (case InstanceGroupSpec.Kubelet (InstanceGroup.Spec ig) of None \<Rightarrow> [] | Some k \<Rightarrow> k),
        SysctlParameters = InstanceGroupSpec.SysctlParameters (InstanceGroup.Spec ig),
        UpdatePolicy =
          (case InstanceGroupSpec.UpdatePolicy (InstanceGroup.Spec ig) of
             Some p \<Rightarrow> p
           | None \<Rightarrow>
               (case ClusterSpec.UpdatePolicy (Cluster.Spec cluster) of
                  Some p \<Rightarrow> p
                | None \<Rightarrow> UpdatePolicyAutomatic kops)),
        VolumeMounts = InstanceGroupSpec.VolumeMounts (InstanceGroup.Spec ig),
        FileAssets =
          filterFileAssets (InstanceGroupSpec.FileAssets (InstanceGroup.Spec ig))
            (InstanceGroupSpec.Role (InstanceGroup.Spec ig))
          @ filterFileAssets (ClusterSpec.FileAssets (Cluster.Spec cluster))
              (InstanceGroupSpec.Role (InstanceGroup.Spec ig)),
        Hooks =
          [filterHooks (InstanceGroupSpec.Hooks (InstanceGroup.Spec ig))
             (InstanceGroupSpec.Role (InstanceGroup.Spec ig)),
           filterHooks (ClusterSpec.Hooks (Cluster.Spec cluster))
             (InstanceGroupSpec.Role (InstanceGroup.Spec ig))],
        ContainerRuntime = ClusterSpec.ContainerRuntime (Cluster.Spec cluster),
        ContainerdConfig = None,
        APIServerConfig =
          (if HasAPIServer kops ig
           then Some \<lparr>APIServerConfig.KubeAPIServer =
                        ClusterSpec.KubeAPIServer (Cluster.Spec cluster),
                      EncryptionConfigSecretHash = [], ServiceAccountPublicKeys = []\<rparr>
           else None),
        NvidiaGPU = None,
        DisableSecurityGroupIngress =
          (case CloudProviderSpec.AWS (ClusterSpec.CloudProvider (Cluster.Spec cluster)) of
             None \<Rightarrow> None
           | Some aws \<Rightarrow>
               if HasAPIServer kops ig \<or> IsKubernetesLT kops cluster ''1.24''
               then AWSSpec.DisableSecurityGroupIngress aws else None),
        ElbSecurityGroup =
          (case CloudProviderSpec.AWS (ClusterSpec.CloudProvider (Cluster.Spec cluster)) of
             None \<Rightarrow> None
           | Some aws \<Rightarrow>
               if HasAPIServer kops ig \<or> IsKubernetesLT kops cluster ''1.24''
               then AWSSpec.ElbSecurityGroup aws else None),
        NodeIPFamilies =
          (case CloudProviderSpec.AWS (ClusterSpec.CloudProvider (Cluster.Spec cluster)) of
             None \<Rightarrow> []
           | Some aws \<Rightarrow>
               if HasAPIServer kops ig \<or> IsKubernetesLT kops cluster ''1.24''
               then AWSSpec.NodeIPFamilies aws else []),
        UseInstanceIDForNodeName = UsesInstanceIDForNodeName kops cluster,
        WarmPoolImages = [],
        Multizone =
          (case CloudProviderSpec.GCE (ClusterSpec.CloudProvider (Cluster.Spec cluster)) of
             None \<Rightarrow> None | Some gce \<Rightarrow> GCESpec.Multizone gce),
        NodeTags =
          (case CloudProviderSpec.GCE (ClusterSpec.CloudProvider (Cluster.Spec cluster)) of
             None \<Rightarrow> None | Some gce \<Rightarrow> GCESpec.NodeTags gce),
        NodeInstancePrefix =
          (case CloudProviderSpec.GCE (ClusterSpec.CloudProvider (Cluster.Spec cluster)) of
             None \<Rightarrow> None | Some gce \<Rightarrow> GCESpec.NodeInstancePrefix gce)\<rparr>,
       \<lparr>CloudProvider = GetCloudProvider kops (Cluster.Spec cluster),
        ConfigBase = None, ConfigServer = None, APIServerIP = [],
        InstanceGroupName = ObjectMeta.Name (InstanceGroup.ObjectMeta ig),
        InstanceGroupRole = InstanceGroupSpec.Role (InstanceGroup.Spec ig),
        NodeupConfigHash = []\<rparr>))"
  by (simp add: NewConfig_def Let_def NewConfig_aws_eq NewConfig_machineType_eq NewConfig_gce_eq
        NewConfig_updatePolicy_eq NewConfig_nodeName_eq NewConfig_kubelet_eq NewConfig_apiServer_eq
        NewConfig_config_def NewConfig_bootConfig_def Config_zero_def BootConfig_zero_def
        cong: option.case_cong if_cong)

section \<open>The store: append and the filters\<close>

lemma length_write:
  "p + length xs \<le> length arr \<Longrightarrow> length (take p arr @ xs @ drop (p + length xs) arr) = length arr"
  by simp

lemma take_drop_write:
  assumes "o' + l + length xs \<le> length arr"
  shows "take (l + length xs) (drop o' (take (o' + l) arr @ xs @ drop (o' + (l + length xs)) arr))
           = take l (drop o' arr) @ xs"
proof -
  have "drop o' (take (o' + l) arr) = take l (drop o' arr)"
    by (simp add: drop_take)
  moreover have "length (take l (drop o' arr)) = l"
    using assms by simp
  moreover have "length (take (o' + l) arr) = o' + l"
    using assms by simp
  ultimately show ?thesis
    by simp
qed

lemma go_append_frame:
  assumes ok: "slice_ok mem s" and fresh: "slice_fresh n s" and n: "n \<le> length mem"
    and app: "go_append growcap zero mem s xs = (s', mem')"
  shows "take n mem' = take n mem \<and> length mem \<le> length mem' \<and> slice_ok mem' s' \<and> slice_fresh n s'
         \<and> slice_elems mem' s' = slice_elems mem s @ xs
         \<and> (array s' = None) = (array s = None \<and> xs = [])"
proof (cases "len s + length xs \<le> cap s")
  case False
  then have s': "s' = \<lparr>array = Some (length mem), off = 0, len = len s + length xs,
                       cap = max (len s + length xs) (growcap (cap s) (len s + length xs))\<rparr>"
    and mem': "mem' = mem @ [slice_elems mem s @ xs @
                 replicate (max (len s + length xs) (growcap (cap s) (len s + length xs)) - (len s + length xs)) zero]"
    using app by (simp_all add: go_append_def Let_def)
  have l: "length (slice_elems mem s) = len s"
    using ok by (auto simp: slice_ok_def slice_elems_def split: option.splits)
  have "\<not> (array s = None \<and> xs = [])"
    using ok False by (auto simp: slice_ok_def)
  then show ?thesis
    using n l by (simp add: s' mem' slice_ok_def slice_fresh_def slice_elems_def)
next
  case True
  show ?thesis
  proof (cases "array s")
    case None
    then have "s' = s" "mem' = mem"
      using app True by (simp_all add: go_append_def Let_def)
    moreover have "xs = []"
      using ok True None by (simp add: slice_ok_def)
    ultimately show ?thesis
      using ok fresh by simp
  next
    case (Some a)
    let ?arr = "mem ! a"
    let ?new = "take (off s + len s) ?arr @ xs @ drop (off s + (len s + length xs)) ?arr"
    have s': "s' = s\<lparr>len := len s + length xs\<rparr>" and mem': "mem' = mem[a := ?new]"
      using app True Some by (simp_all add: go_append_def Let_def)
    have a: "a < length mem" "off s + cap s \<le> length ?arr" "n \<le> a"
      using ok fresh Some by (simp_all add: slice_ok_def slice_fresh_def)
    have len: "length ?new = length ?arr"
      using a True by simp
    have el: "take (len s + length xs) (drop (off s) ?new) = take (len s) (drop (off s) ?arr) @ xs"
      using a True by (intro take_drop_write) simp
    show ?thesis
      using a True Some len el
      by (simp add: s' mem' slice_ok_def slice_fresh_def slice_elems_def del: append_assoc)
  qed
qed

lemma nth_of_take_eq:
  assumes "take n mem' = take n mem" "a < n"
  shows "mem' ! a = mem ! a"
  using assms by (metis nth_take)

lemma slice_below_preserved:
  assumes "slice_ok mem s" "slice_below n s" "n \<le> length mem" "length mem \<le> length mem'"
    "take n mem' = take n mem"
  shows "slice_ok mem' s" "slice_elems mem' s = slice_elems mem s"
    "slice_index mem' s i = slice_index mem s i"
  using assms nth_of_take_eq[of n mem' mem]
  by (auto simp: slice_ok_def slice_below_def slice_elems_def slice_index_def split: option.splits)

lemma slice_index_elems:
  assumes "slice_ok mem s" "i < len s"
  shows "slice_index mem s i = Some (slice_elems mem s ! i)" "length (slice_elems mem s) = len s"
  using assms
  by (auto simp: slice_ok_def slice_elems_def slice_index_def split: option.splits)

lemma filterHooks_mem_loop_frame:
  assumes "slice_ok mem h" "slice_below n h" "n \<le> length mem" "slice_ok mem hooks"
    "slice_fresh n hooks" "(array hooks = None) = (slice_elems mem hooks = [])"
  shows "\<exists>hooks' mem'. filterHooks_mem_loop growcap mem h role i hooks = Inr (hooks', mem')
           \<and> take n mem' = take n mem \<and> length mem \<le> length mem'
           \<and> slice_ok mem' hooks' \<and> slice_fresh n hooks'
           \<and> slice_elems mem' hooks'
               = filterHooks_loop (drop i (slice_elems mem h)) role (slice_elems mem hooks)
           \<and> (array hooks' = None) = (slice_elems mem' hooks' = [])"
  using assms
proof (induction growcap mem h role i hooks rule: filterHooks_mem_loop.induct)
  case (1 growcap mem h role i hooks)
  show ?case
  proof (cases "i < len h")
    case False
    then have "drop i (slice_elems mem h) = []"
      using "1.prems"(1) by (auto simp: slice_ok_def slice_elems_def split: option.splits)
    then show ?thesis
      using False "1.prems" by (subst filterHooks_mem_loop.simps) simp
  next
    case True
    let ?hook = "slice_elems mem h ! i"
    have idx: "slice_index mem h i = Some ?hook" and l: "length (slice_elems mem h) = len h"
      using slice_index_elems[OF "1.prems"(1) True] by simp_all
    have dr: "drop i (slice_elems mem h) = ?hook # drop (Suc i) (slice_elems mem h)"
      using True l by (simp add: Cons_nth_drop_Suc)
    show ?thesis
    proof (cases "0 < length (HookSpec.Roles ?hook) \<and> \<not> containsRole role (HookSpec.Roles ?hook)")
      case skip: True
      have "\<exists>hooks' mem'. filterHooks_mem_loop growcap mem h role (Suc i) hooks = Inr (hooks', mem')
           \<and> take n mem' = take n mem \<and> length mem \<le> length mem'
           \<and> slice_ok mem' hooks' \<and> slice_fresh n hooks'
           \<and> slice_elems mem' hooks'
               = filterHooks_loop (drop (Suc i) (slice_elems mem h)) role (slice_elems mem hooks)
           \<and> (array hooks' = None) = (slice_elems mem' hooks' = [])"
        using "1.IH"(1)[OF True idx skip] "1.prems" by simp
      then show ?thesis
        using True idx skip dr by (subst filterHooks_mem_loop.simps) simp
    next
      case keep: False
      obtain hooks1 mem1 where app:
        "go_append growcap HookSpec_zero mem hooks [?hook\<lparr>HookSpec.Roles := []\<rparr>] = (hooks1, mem1)"
        by (cases "go_append growcap HookSpec_zero mem hooks [?hook\<lparr>HookSpec.Roles := []\<rparr>]")
      have fr: "take n mem1 = take n mem" "length mem \<le> length mem1" "slice_ok mem1 hooks1"
        "slice_fresh n hooks1"
        "slice_elems mem1 hooks1 = slice_elems mem hooks @ [?hook\<lparr>HookSpec.Roles := []\<rparr>]"
        "array hooks1 \<noteq> None"
        using go_append_frame[OF "1.prems"(4) "1.prems"(5) "1.prems"(3) app] by simp_all
      have nil1: "(array hooks1 = None) = (slice_elems mem1 hooks1 = [])"
        using fr(5,6) by simp
      have h1: "slice_ok mem1 h" "slice_elems mem1 h = slice_elems mem h"
        using slice_below_preserved[OF "1.prems"(1) "1.prems"(2) "1.prems"(3) fr(2) fr(1)]
        by simp_all
      have n1: "n \<le> length mem1"
        using "1.prems"(3) fr(2) by simp
      obtain hooks' mem' where rec:
        "filterHooks_mem_loop growcap mem1 h role (Suc i) hooks1 = Inr (hooks', mem')"
        "take n mem' = take n mem1" "length mem1 \<le> length mem'"
        "slice_ok mem' hooks'" "slice_fresh n hooks'"
        "slice_elems mem' hooks'
           = filterHooks_loop (drop (Suc i) (slice_elems mem1 h)) role (slice_elems mem1 hooks1)"
        "(array hooks' = None) = (slice_elems mem' hooks' = [])"
        using "1.IH"(2)[OF True idx keep app[symmetric] h1(1) "1.prems"(2) n1 fr(3) fr(4) nil1]
        by (elim exE conjE)
      have "filterHooks_mem_loop growcap mem h role i hooks = Inr (hooks', mem')"
        using True idx keep app rec(1) by (subst filterHooks_mem_loop.simps) auto
      moreover have "slice_elems mem' hooks'
          = filterHooks_loop (drop i (slice_elems mem h)) role (slice_elems mem hooks)"
        using rec(6) keep by (auto simp: dr h1(2) fr(5))
      ultimately show ?thesis
        using rec(2-5,7) fr(1,2) by simp
    qed
  qed
qed

lemma filterFileAssets_mem_loop_frame:
  assumes "slice_ok mem f" "slice_below n f" "n \<le> length mem" "slice_ok mem fileAssets"
    "slice_fresh n fileAssets" "(array fileAssets = None) = (slice_elems mem fileAssets = [])"
  shows "\<exists>fileAssets' mem'. filterFileAssets_mem_loop growcap mem f role i fileAssets = Inr (fileAssets', mem')
           \<and> take n mem' = take n mem \<and> length mem \<le> length mem'
           \<and> slice_ok mem' fileAssets' \<and> slice_fresh n fileAssets'
           \<and> slice_elems mem' fileAssets'
               = filterFileAssets_loop (drop i (slice_elems mem f)) role (slice_elems mem fileAssets)
           \<and> (array fileAssets' = None) = (slice_elems mem' fileAssets' = [])"
  using assms
proof (induction growcap mem f role i fileAssets rule: filterFileAssets_mem_loop.induct)
  case (1 growcap mem f role i fileAssets)
  show ?case
  proof (cases "i < len f")
    case False
    then have "drop i (slice_elems mem f) = []"
      using "1.prems"(1) by (auto simp: slice_ok_def slice_elems_def split: option.splits)
    then show ?thesis
      using False "1.prems" by (subst filterFileAssets_mem_loop.simps) simp
  next
    case True
    let ?fileAsset = "slice_elems mem f ! i"
    have idx: "slice_index mem f i = Some ?fileAsset" and l: "length (slice_elems mem f) = len f"
      using slice_index_elems[OF "1.prems"(1) True] by simp_all
    have dr: "drop i (slice_elems mem f) = ?fileAsset # drop (Suc i) (slice_elems mem f)"
      using True l by (simp add: Cons_nth_drop_Suc)
    show ?thesis
    proof (cases "0 < length (FileAssetSpec.Roles ?fileAsset) \<and> \<not> containsRole role (FileAssetSpec.Roles ?fileAsset)")
      case skip: True
      have "\<exists>fileAssets' mem'. filterFileAssets_mem_loop growcap mem f role (Suc i) fileAssets = Inr (fileAssets', mem')
           \<and> take n mem' = take n mem \<and> length mem \<le> length mem'
           \<and> slice_ok mem' fileAssets' \<and> slice_fresh n fileAssets'
           \<and> slice_elems mem' fileAssets'
               = filterFileAssets_loop (drop (Suc i) (slice_elems mem f)) role (slice_elems mem fileAssets)
           \<and> (array fileAssets' = None) = (slice_elems mem' fileAssets' = [])"
        using "1.IH"(1)[OF True idx skip] "1.prems" by simp
      then show ?thesis
        using True idx skip dr by (subst filterFileAssets_mem_loop.simps) simp
    next
      case keep: False
      obtain fileAssets1 mem1 where app:
        "go_append growcap FileAssetSpec_zero mem fileAssets [?fileAsset\<lparr>FileAssetSpec.Roles := []\<rparr>] = (fileAssets1, mem1)"
        by (cases "go_append growcap FileAssetSpec_zero mem fileAssets [?fileAsset\<lparr>FileAssetSpec.Roles := []\<rparr>]")
      have fr: "take n mem1 = take n mem" "length mem \<le> length mem1" "slice_ok mem1 fileAssets1"
        "slice_fresh n fileAssets1"
        "slice_elems mem1 fileAssets1 = slice_elems mem fileAssets @ [?fileAsset\<lparr>FileAssetSpec.Roles := []\<rparr>]"
        "array fileAssets1 \<noteq> None"
        using go_append_frame[OF "1.prems"(4) "1.prems"(5) "1.prems"(3) app] by simp_all
      have nil1: "(array fileAssets1 = None) = (slice_elems mem1 fileAssets1 = [])"
        using fr(5,6) by simp
      have f1: "slice_ok mem1 f" "slice_elems mem1 f = slice_elems mem f"
        using slice_below_preserved[OF "1.prems"(1) "1.prems"(2) "1.prems"(3) fr(2) fr(1)]
        by simp_all
      have n1: "n \<le> length mem1"
        using "1.prems"(3) fr(2) by simp
      obtain fileAssets' mem' where rec:
        "filterFileAssets_mem_loop growcap mem1 f role (Suc i) fileAssets1 = Inr (fileAssets', mem')"
        "take n mem' = take n mem1" "length mem1 \<le> length mem'"
        "slice_ok mem' fileAssets'" "slice_fresh n fileAssets'"
        "slice_elems mem' fileAssets'
           = filterFileAssets_loop (drop (Suc i) (slice_elems mem1 f)) role (slice_elems mem1 fileAssets1)"
        "(array fileAssets' = None) = (slice_elems mem' fileAssets' = [])"
        using "1.IH"(2)[OF True idx keep app[symmetric] f1(1) "1.prems"(2) n1 fr(3) fr(4) nil1]
        by (elim exE conjE)
      have "filterFileAssets_mem_loop growcap mem f role i fileAssets = Inr (fileAssets', mem')"
        using True idx keep app rec(1) by (subst filterFileAssets_mem_loop.simps) auto
      moreover have "slice_elems mem' fileAssets'
          = filterFileAssets_loop (drop i (slice_elems mem f)) role (slice_elems mem fileAssets)"
        using rec(6) keep by (auto simp: dr f1(2) fr(5))
      ultimately show ?thesis
        using rec(2-5,7) fr(1,2) by simp
    qed
  qed
qed

lemma slice_ok_below: "slice_ok mem s \<Longrightarrow> slice_below (length mem) s"
  by (auto simp: slice_ok_def slice_below_def split: option.splits)

lemma nil_slice_ok:
  "slice_ok mem nil_slice" "slice_fresh n nil_slice" "slice_elems mem nil_slice = []"
  "(array nil_slice = None) = (slice_elems mem nil_slice = [])"
  by (simp_all add: slice_ok_def slice_fresh_def slice_elems_def nil_slice_def)

lemma prefix_as_append:
  assumes "take (length mem) mem' = take (length mem) mem" "length mem \<le> length mem'"
  shows "mem' = mem @ drop (length mem) mem'"
proof -
  have "mem' = take (length mem) mem' @ drop (length mem) mem'"
    by simp
  then show ?thesis
    using assms(1) by simp
qed

lemma slice_extend:
  assumes "slice_ok mem s"
  shows "slice_ok (mem @ fresh) s" "slice_elems (mem @ fresh) s = slice_elems mem s"
  using assms
  by (auto simp: slice_ok_def slice_elems_def nth_append split: option.splits)

lemma slice_fresh_mono: "slice_fresh n s \<Longrightarrow> m \<le> n \<Longrightarrow> slice_fresh m s"
  by (auto simp: slice_fresh_def split: option.splits)

lemma filterHooks_mem_frame:
  assumes "slice_ok mem h"
  shows "\<exists>hooks' fresh. filterHooks_mem growcap mem h role = Inr (hooks', mem @ fresh)
           \<and> slice_ok (mem @ fresh) hooks' \<and> slice_fresh (length mem) hooks'
           \<and> slice_elems (mem @ fresh) hooks' = filterHooks (slice_elems mem h) role
           \<and> (array hooks' = None) = (slice_elems (mem @ fresh) hooks' = [])"
proof -
  obtain hooks' mem' where r: "filterHooks_mem_loop growcap mem h role 0 nil_slice = Inr (hooks', mem')"
    "take (length mem) mem' = take (length mem) mem" "length mem \<le> length mem'"
    "slice_ok mem' hooks'" "slice_fresh (length mem) hooks'"
    "slice_elems mem' hooks' = filterHooks_loop (drop 0 (slice_elems mem h)) role (slice_elems mem nil_slice)"
    "(array hooks' = None) = (slice_elems mem' hooks' = [])"
    using filterHooks_mem_loop_frame[OF assms slice_ok_below[OF assms] le_refl nil_slice_ok(1) nil_slice_ok(2)
        nil_slice_ok(4), of growcap role 0]
    by (elim exE conjE)
  have m: "mem' = mem @ drop (length mem) mem'"
    using prefix_as_append[OF r(2) r(3)] .
  have "filterHooks_mem growcap mem h role = Inr (hooks', mem @ drop (length mem) mem')"
    using r(1) m by (simp add: filterHooks_mem_def)
  moreover have "slice_ok (mem @ drop (length mem) mem') hooks'"
    using r(4) m by simp
  moreover have "slice_elems (mem @ drop (length mem) mem') hooks' = filterHooks (slice_elems mem h) role"
    using r(6) m by (simp add: filterHooks_def nil_slice_ok)
  moreover have "(array hooks' = None) = (slice_elems (mem @ drop (length mem) mem') hooks' = [])"
    using r(7) m by simp
  ultimately show ?thesis
    using r(5)
    by - (rule exI[of _ hooks'], rule exI[of _ "drop (length mem) mem'"], simp)
qed

lemma filterFileAssets_mem_frame:
  assumes "slice_ok mem f"
  shows "\<exists>fileAssets' fresh. filterFileAssets_mem growcap mem f role = Inr (fileAssets', mem @ fresh)
           \<and> slice_ok (mem @ fresh) fileAssets' \<and> slice_fresh (length mem) fileAssets'
           \<and> slice_elems (mem @ fresh) fileAssets' = filterFileAssets (slice_elems mem f) role
           \<and> (array fileAssets' = None) = (slice_elems (mem @ fresh) fileAssets' = [])"
proof -
  obtain fileAssets' mem' where r: "filterFileAssets_mem_loop growcap mem f role 0 nil_slice = Inr (fileAssets', mem')"
    "take (length mem) mem' = take (length mem) mem" "length mem \<le> length mem'"
    "slice_ok mem' fileAssets'" "slice_fresh (length mem) fileAssets'"
    "slice_elems mem' fileAssets' = filterFileAssets_loop (drop 0 (slice_elems mem f)) role (slice_elems mem nil_slice)"
    "(array fileAssets' = None) = (slice_elems mem' fileAssets' = [])"
    using filterFileAssets_mem_loop_frame[OF assms slice_ok_below[OF assms] le_refl nil_slice_ok(1) nil_slice_ok(2)
        nil_slice_ok(4), of growcap role 0]
    by (elim exE conjE)
  have m: "mem' = mem @ drop (length mem) mem'"
    using prefix_as_append[OF r(2) r(3)] .
  have "filterFileAssets_mem growcap mem f role = Inr (fileAssets', mem @ drop (length mem) mem')"
    using r(1) m by (simp add: filterFileAssets_mem_def)
  moreover have "slice_ok (mem @ drop (length mem) mem') fileAssets'"
    using r(4) m by simp
  moreover have "slice_elems (mem @ drop (length mem) mem') fileAssets' = filterFileAssets (slice_elems mem f) role"
    using r(6) m by (simp add: filterFileAssets_def nil_slice_ok)
  moreover have "(array fileAssets' = None) = (slice_elems (mem @ drop (length mem) mem') fileAssets' = [])"
    using r(7) m by simp
  ultimately show ?thesis
    using r(5)
    by - (rule exI[of _ fileAssets'], rule exI[of _ "drop (length mem) mem'"], simp)
qed

lemma NewConfig_mem_refines:
  assumes ch: "slice_ok (hookArrays mem) clusterHooksIn"
    and ih: "slice_ok (hookArrays mem) igHooksIn"
    and ifa: "slice_ok (fileAssetArrays mem) igFileAssetsIn"
    and cfa: "slice_ok (fileAssetArrays mem) clusterFileAssetsIn"
  shows "\<exists>igHooks clusterHooks fileAssets freshH freshF.
           NewConfig_mem growH growF mem clusterHooksIn igHooksIn igFileAssetsIn clusterFileAssetsIn role
             = Inr ((igHooks, clusterHooks, fileAssets),
                    \<lparr>hookArrays = hookArrays mem @ freshH,
                     fileAssetArrays = fileAssetArrays mem @ freshF\<rparr>)
           \<and> slice_fresh (length (hookArrays mem)) igHooks
           \<and> slice_fresh (length (hookArrays mem)) clusterHooks
           \<and> slice_fresh (length (fileAssetArrays mem)) fileAssets
           \<and> slice_elems (hookArrays mem @ freshH) igHooks
               = filterHooks (slice_elems (hookArrays mem) igHooksIn) role
           \<and> slice_elems (hookArrays mem @ freshH) clusterHooks
               = filterHooks (slice_elems (hookArrays mem) clusterHooksIn) role
           \<and> slice_elems (fileAssetArrays mem @ freshF) fileAssets
               = filterFileAssets (slice_elems (fileAssetArrays mem) igFileAssetsIn) role
                 @ filterFileAssets (slice_elems (fileAssetArrays mem) clusterFileAssetsIn) role
           \<and> (array igHooks = None) = (slice_elems (hookArrays mem @ freshH) igHooks = [])
           \<and> (array clusterHooks = None)
               = (slice_elems (hookArrays mem @ freshH) clusterHooks = [])
           \<and> (array fileAssets = None)
               = (slice_elems (fileAssetArrays mem @ freshF) fileAssets = [])"
proof -
  let ?H = "hookArrays mem" and ?F = "fileAssetArrays mem"
  obtain clusterHooks h1 where s1:
    "filterHooks_mem growH ?H clusterHooksIn role = Inr (clusterHooks, ?H @ h1)"
    "slice_ok (?H @ h1) clusterHooks" "slice_fresh (length ?H) clusterHooks"
    "slice_elems (?H @ h1) clusterHooks = filterHooks (slice_elems ?H clusterHooksIn) role"
    "(array clusterHooks = None) = (slice_elems (?H @ h1) clusterHooks = [])"
    using filterHooks_mem_frame[OF ch, of growH role] by (elim exE conjE)
  obtain igHooks h2 where s2:
    "filterHooks_mem growH (?H @ h1) igHooksIn role = Inr (igHooks, (?H @ h1) @ h2)"
    "slice_ok ((?H @ h1) @ h2) igHooks" "slice_fresh (length (?H @ h1)) igHooks"
    "slice_elems ((?H @ h1) @ h2) igHooks = filterHooks (slice_elems (?H @ h1) igHooksIn) role"
    "(array igHooks = None) = (slice_elems ((?H @ h1) @ h2) igHooks = [])"
    using filterHooks_mem_frame[OF slice_extend(1)[OF ih], of growH h1 role] by (elim exE conjE)
  obtain igFileAssets f1 where s3:
    "filterFileAssets_mem growF ?F igFileAssetsIn role = Inr (igFileAssets, ?F @ f1)"
    "slice_ok (?F @ f1) igFileAssets" "slice_fresh (length ?F) igFileAssets"
    "slice_elems (?F @ f1) igFileAssets = filterFileAssets (slice_elems ?F igFileAssetsIn) role"
    "(array igFileAssets = None) = (slice_elems (?F @ f1) igFileAssets = [])"
    using filterFileAssets_mem_frame[OF ifa, of growF role] by (elim exE conjE)
  obtain clusterFileAssets f2 where s4:
    "filterFileAssets_mem growF (?F @ f1) clusterFileAssetsIn role
       = Inr (clusterFileAssets, (?F @ f1) @ f2)"
    "slice_ok ((?F @ f1) @ f2) clusterFileAssets"
    "slice_elems ((?F @ f1) @ f2) clusterFileAssets
       = filterFileAssets (slice_elems (?F @ f1) clusterFileAssetsIn) role"
    using filterFileAssets_mem_frame[OF slice_extend(1)[OF cfa], of growF f1 role]
    by (elim exE conjE)
  obtain fileAssets fmem3 where s5:
    "go_append growF FileAssetSpec_zero ((?F @ f1) @ f2) igFileAssets
       (slice_elems ((?F @ f1) @ f2) clusterFileAssets) = (fileAssets, fmem3)"
    by (cases "go_append growF FileAssetSpec_zero ((?F @ f1) @ f2) igFileAssets
       (slice_elems ((?F @ f1) @ f2) clusterFileAssets)")
  have fr: "take (length ?F) fmem3 = take (length ?F) ((?F @ f1) @ f2)"
    "length ((?F @ f1) @ f2) \<le> length fmem3" "slice_fresh (length ?F) fileAssets"
    "slice_elems fmem3 fileAssets
       = slice_elems ((?F @ f1) @ f2) igFileAssets @ slice_elems ((?F @ f1) @ f2) clusterFileAssets"
    "(array fileAssets = None)
       = (array igFileAssets = None \<and> slice_elems ((?F @ f1) @ f2) clusterFileAssets = [])"
    using go_append_frame[OF slice_extend(1)[OF s3(2)] s3(3) _ s5] by simp_all
  have f3: "fmem3 = ?F @ drop (length ?F) fmem3"
    using prefix_as_append[of ?F fmem3] fr(1,2) by simp
  have e1: "slice_elems ((?H @ h1) @ h2) clusterHooks
      = filterHooks (slice_elems ?H clusterHooksIn) role"
    using slice_extend(2)[OF s1(2)] s1(4) by simp
  have e2: "slice_elems ((?H @ h1) @ h2) igHooks = filterHooks (slice_elems ?H igHooksIn) role"
    using s2(4) slice_extend(2)[OF ih] by simp
  have e3: "slice_elems fmem3 fileAssets
      = filterFileAssets (slice_elems ?F igFileAssetsIn) role
        @ filterFileAssets (slice_elems ?F clusterFileAssetsIn) role"
    using fr(4) slice_extend(2)[OF s3(2)] s3(4) s4(3) slice_extend(2)[OF cfa] by simp
  have run: "NewConfig_mem growH growF mem clusterHooksIn igHooksIn igFileAssetsIn clusterFileAssetsIn role
      = Inr ((igHooks, clusterHooks, fileAssets),
             \<lparr>hookArrays = ?H @ (h1 @ h2), fileAssetArrays = ?F @ drop (length ?F) fmem3\<rparr>)"
    using s1(1) s2(1) s3(1) s4(1) s5 f3 by (simp add: NewConfig_mem_def)
  have fresh2: "slice_fresh (length ?H) igHooks"
    using slice_fresh_mono[OF s2(3)] by simp
  have n1: "(array clusterHooks = None) = (slice_elems ((?H @ h1) @ h2) clusterHooks = [])"
    using s1(5) slice_extend(2)[OF s1(2)] by simp
  have n3: "(array fileAssets = None) = (slice_elems fmem3 fileAssets = [])"
    using fr(4,5) s3(5) slice_extend(2)[OF s3(2)] by simp
  have "NewConfig_mem growH growF mem clusterHooksIn igHooksIn igFileAssetsIn clusterFileAssetsIn role
          = Inr ((igHooks, clusterHooks, fileAssets),
                 \<lparr>hookArrays = ?H @ (h1 @ h2), fileAssetArrays = ?F @ drop (length ?F) fmem3\<rparr>)
        \<and> slice_fresh (length ?H) igHooks
        \<and> slice_fresh (length ?H) clusterHooks
        \<and> slice_fresh (length ?F) fileAssets
        \<and> slice_elems (?H @ (h1 @ h2)) igHooks = filterHooks (slice_elems ?H igHooksIn) role
        \<and> slice_elems (?H @ (h1 @ h2)) clusterHooks
            = filterHooks (slice_elems ?H clusterHooksIn) role
        \<and> slice_elems (?F @ drop (length ?F) fmem3) fileAssets
            = filterFileAssets (slice_elems ?F igFileAssetsIn) role
              @ filterFileAssets (slice_elems ?F clusterFileAssetsIn) role
        \<and> (array igHooks = None) = (slice_elems (?H @ (h1 @ h2)) igHooks = [])
        \<and> (array clusterHooks = None) = (slice_elems (?H @ (h1 @ h2)) clusterHooks = [])
        \<and> (array fileAssets = None)
            = (slice_elems (?F @ drop (length ?F) fmem3) fileAssets = [])"
    using run fresh2 s1(3) fr(3) e1 e2 e3 f3 n1 n3 s2(5) by simp
  then show ?thesis
    by - (rule exI[of _ igHooks], rule exI[of _ clusterHooks], rule exI[of _ fileAssets],
          rule exI[of _ "h1 @ h2"], rule exI[of _ "drop (length ?F) fmem3"])
qed

section \<open>When NewConfig returns\<close>

text \<open>
  \<^verbatim>\<open>NewConfig\<close> panics in one case only: the cluster has an AWS block and
  \<^verbatim>\<open>IsEnabled\<close> is true of a \<^verbatim>\<open>nil\<close> pointer that \<^verbatim>\<open>ResolveDefaults\<close> returned. The
  index into the result of \<^verbatim>\<open>strings.Split\<close> never panics. So \<^verbatim>\<open>NewConfig\<close> returns on
  every cluster and instance group when \<^verbatim>\<open>IsEnabled\<close> is false of \<^verbatim>\<open>nil\<close>.
\<close>

lemma NewConfig_panics_iff:
  "(\<exists>e. NewConfig kops cluster ig = Inl e) =
     (case CloudProviderSpec.AWS (ClusterSpec.CloudProvider (Cluster.Spec cluster)) of
        None \<Rightarrow> False
      | Some aws \<Rightarrow> IsEnabled kops (ResolveDefaults kops (AWSSpec.WarmPool aws) ig)
                    \<and> ResolveDefaults kops (AWSSpec.WarmPool aws) ig = None)"
  by (simp add: NewConfig_eq)

lemma NewConfig_returns:
  assumes "\<not> IsEnabled kops None"
  shows "\<exists>config bootConfig. NewConfig kops cluster ig = Inr (config, bootConfig)"
proof -
  have "\<not> (case CloudProviderSpec.AWS (ClusterSpec.CloudProvider (Cluster.Spec cluster)) of
        None \<Rightarrow> False
      | Some aws \<Rightarrow> IsEnabled kops (ResolveDefaults kops (AWSSpec.WarmPool aws) ig)
                    \<and> ResolveDefaults kops (AWSSpec.WarmPool aws) ig = None)"
  proof (cases "CloudProviderSpec.AWS (ClusterSpec.CloudProvider (Cluster.Spec cluster))")
    case None
    then show ?thesis
      by simp
  next
    case (Some aws)
    have "\<not> (IsEnabled kops warmPool \<and> warmPool = None)" for warmPool
      using assms by (cases warmPool) simp_all
    then show ?thesis
      using Some by simp
  qed
  then show ?thesis
    by (subst NewConfig_eq) simp
qed

lemma kops_example_nil_safe: "\<not> IsEnabled kops_example None"
  by (simp add: kops_example_def)

lemmas example_defs =
  hook_all_def hook_worker_def hook_control_plane_def asset_all_def asset_worker_def
  kops_example_def cluster_aws_example_def cluster_gce_example_def ig_worker_example_def
  ig_control_plane_example_def ig_empty_policy_example_def

section \<open>The boot configuration\<close>

text \<open>
  C1 (as amended). Whenever \<^verbatim>\<open>NewConfig\<close> returns, the boot configuration it returns has
  the provider identity of the cluster in \<^verbatim>\<open>CloudProvider\<close>, the name and the role of the
  instance group in \<^verbatim>\<open>InstanceGroupName\<close> and \<^verbatim>\<open>InstanceGroupRole\<close>, and the zero
  value in every other field: \<^verbatim>\<open>ConfigServer\<close> and \<^verbatim>\<open>ConfigBase\<close> are \<^verbatim>\<open>nil\<close>,
  \<^verbatim>\<open>NodeupConfigHash\<close> and \<^verbatim>\<open>APIServerIP\<close> are empty. \<^verbatim>\<open>NewConfig\<close> does not fill in
  the address of the configuration server or the hash of the node configuration.
\<close>

theorem NewConfig_bootConfig_fields:
  assumes "NewConfig kops cluster ig = Inr (config, bootConfig)"
  shows "bootConfig =
     \<lparr>CloudProvider = GetCloudProvider kops (Cluster.Spec cluster),
      ConfigBase = None, ConfigServer = None, APIServerIP = [],
      InstanceGroupName = ObjectMeta.Name (InstanceGroup.ObjectMeta ig),
      InstanceGroupRole = InstanceGroupSpec.Role (InstanceGroup.Spec ig),
      NodeupConfigHash = []\<rparr>"
  using assms by (simp add: NewConfig_eq split: if_splits)

theorem NewConfig_bootConfig_fields_witness:
  "\<exists>config bootConfig.
     NewConfig kops_example cluster_aws_example ig_worker_example = Inr (config, bootConfig)
     \<and> bootConfig =
         \<lparr>CloudProvider = ''aws'', ConfigBase = None, ConfigServer = None, APIServerIP = [],
          InstanceGroupName = ''nodes'', InstanceGroupRole = ''worker'', NodeupConfigHash = []\<rparr>"
proof -
  obtain config bootConfig where
    r: "NewConfig kops_example cluster_aws_example ig_worker_example = Inr (config, bootConfig)"
    using NewConfig_returns[OF kops_example_nil_safe] by blast
  have "bootConfig =
     \<lparr>CloudProvider = GetCloudProvider kops_example (Cluster.Spec cluster_aws_example),
      ConfigBase = None, ConfigServer = None, APIServerIP = [],
      InstanceGroupName = ObjectMeta.Name (InstanceGroup.ObjectMeta ig_worker_example),
      InstanceGroupRole = InstanceGroupSpec.Role (InstanceGroup.Spec ig_worker_example),
      NodeupConfigHash = []\<rparr>"
    using NewConfig_bootConfig_fields[OF r] .
  then have "bootConfig =
         \<lparr>CloudProvider = ''aws'', ConfigBase = None, ConfigServer = None, APIServerIP = [],
          InstanceGroupName = ''nodes'', InstanceGroupRole = ''worker'', NodeupConfigHash = []\<rparr>"
    by (simp add: example_defs)
  with r show ?thesis
    by blast
qed

text \<open>On the AWS example cluster and the worker instance group, \<^verbatim>\<open>NewConfig\<close> returns
  a boot configuration whose \<^verbatim>\<open>ConfigServer\<close> is \<^verbatim>\<open>nil\<close> and whose
  \<^verbatim>\<open>NodeupConfigHash\<close> is empty.\<close>

theorem NewConfig_bootConfig_unpopulated:
  "\<not> isl (NewConfig kops_example cluster_aws_example ig_worker_example)
   \<and> BootConfig.ConfigServer
       (snd (projr (NewConfig kops_example cluster_aws_example ig_worker_example))) = None
   \<and> BootConfig.NodeupConfigHash
       (snd (projr (NewConfig kops_example cluster_aws_example ig_worker_example))) = []"
  by (simp add: NewConfig_eq example_defs)

lemma NewConfig_Hooks_FileAssets:
  assumes "NewConfig kops cluster ig = Inr (config, bootConfig)"
  shows "Config.Hooks config =
      [filterHooks (InstanceGroupSpec.Hooks (InstanceGroup.Spec ig))
         (InstanceGroupSpec.Role (InstanceGroup.Spec ig)),
       filterHooks (ClusterSpec.Hooks (Cluster.Spec cluster))
         (InstanceGroupSpec.Role (InstanceGroup.Spec ig))]"
    and "Config.FileAssets config =
      filterFileAssets (InstanceGroupSpec.FileAssets (InstanceGroup.Spec ig))
        (InstanceGroupSpec.Role (InstanceGroup.Spec ig))
      @ filterFileAssets (ClusterSpec.FileAssets (Cluster.Spec cluster))
          (InstanceGroupSpec.Role (InstanceGroup.Spec ig))"
  using assms by (auto simp: NewConfig_eq split: if_splits)

section \<open>Role filtering\<close>

text \<open>
  C2. For every list of hooks or of file assets and every role, the role filter keeps, in
  their order, the elements to which the role rule applies (the role list is empty, or it
  contains the role of the instance group) and no other element; each element it keeps is
  a copy with the role list cleared. Whenever \<^verbatim>\<open>NewConfig\<close> returns, the hooks of the
  node configuration are the filtered hooks of the instance group and the filtered hooks of
  the cluster, and its file assets are the filtered file assets of the instance group
  followed by those of the cluster: an element for \<^verbatim>\<open>worker\<close> alone is in no
  \<^verbatim>\<open>control-plane\<close> node configuration, and an element without roles is in every one.
\<close>

theorem role_filter_keeps_applicable:
  "filterHooks h role =
     map (\<lambda>hook. hook\<lparr>HookSpec.Roles := []\<rparr>)
       (filter (\<lambda>hook. applies_to_role role (HookSpec.Roles hook)) h)
   \<and> filterFileAssets f role =
     map (\<lambda>fileAsset. fileAsset\<lparr>FileAssetSpec.Roles := []\<rparr>)
       (filter (\<lambda>fileAsset. applies_to_role role (FileAssetSpec.Roles fileAsset)) f)
   \<and> (NewConfig kops cluster ig = Inr (config, bootConfig) \<longrightarrow>
        Config.Hooks config =
          [map (\<lambda>hook. hook\<lparr>HookSpec.Roles := []\<rparr>)
             (filter (\<lambda>hook. applies_to_role (InstanceGroupSpec.Role (InstanceGroup.Spec ig))
                               (HookSpec.Roles hook))
                (InstanceGroupSpec.Hooks (InstanceGroup.Spec ig))),
           map (\<lambda>hook. hook\<lparr>HookSpec.Roles := []\<rparr>)
             (filter (\<lambda>hook. applies_to_role (InstanceGroupSpec.Role (InstanceGroup.Spec ig))
                               (HookSpec.Roles hook))
                (ClusterSpec.Hooks (Cluster.Spec cluster)))]
        \<and> Config.FileAssets config =
          map (\<lambda>fileAsset. fileAsset\<lparr>FileAssetSpec.Roles := []\<rparr>)
            (filter (\<lambda>fileAsset. applies_to_role (InstanceGroupSpec.Role (InstanceGroup.Spec ig))
                                    (FileAssetSpec.Roles fileAsset))
               (InstanceGroupSpec.FileAssets (InstanceGroup.Spec ig)))
          @ map (\<lambda>fileAsset. fileAsset\<lparr>FileAssetSpec.Roles := []\<rparr>)
              (filter (\<lambda>fileAsset. applies_to_role (InstanceGroupSpec.Role (InstanceGroup.Spec ig))
                                      (FileAssetSpec.Roles fileAsset))
                 (ClusterSpec.FileAssets (Cluster.Spec cluster))))"
proof (intro conjI impI)
  show "filterHooks h role =
     map (\<lambda>hook. hook\<lparr>HookSpec.Roles := []\<rparr>)
       (filter (\<lambda>hook. applies_to_role role (HookSpec.Roles hook)) h)"
    by (rule filterHooks_eq)
  show "filterFileAssets f role =
     map (\<lambda>fileAsset. fileAsset\<lparr>FileAssetSpec.Roles := []\<rparr>)
       (filter (\<lambda>fileAsset. applies_to_role role (FileAssetSpec.Roles fileAsset)) f)"
    by (rule filterFileAssets_eq)
next
  assume r: "NewConfig kops cluster ig = Inr (config, bootConfig)"
  show "Config.Hooks config =
          [map (\<lambda>hook. hook\<lparr>HookSpec.Roles := []\<rparr>)
             (filter (\<lambda>hook. applies_to_role (InstanceGroupSpec.Role (InstanceGroup.Spec ig))
                               (HookSpec.Roles hook))
                (InstanceGroupSpec.Hooks (InstanceGroup.Spec ig))),
           map (\<lambda>hook. hook\<lparr>HookSpec.Roles := []\<rparr>)
             (filter (\<lambda>hook. applies_to_role (InstanceGroupSpec.Role (InstanceGroup.Spec ig))
                               (HookSpec.Roles hook))
                (ClusterSpec.Hooks (Cluster.Spec cluster)))]"
    using NewConfig_Hooks_FileAssets(1)[OF r] by (simp add: filterHooks_eq)
  show "Config.FileAssets config =
          map (\<lambda>fileAsset. fileAsset\<lparr>FileAssetSpec.Roles := []\<rparr>)
            (filter (\<lambda>fileAsset. applies_to_role (InstanceGroupSpec.Role (InstanceGroup.Spec ig))
                                    (FileAssetSpec.Roles fileAsset))
               (InstanceGroupSpec.FileAssets (InstanceGroup.Spec ig)))
          @ map (\<lambda>fileAsset. fileAsset\<lparr>FileAssetSpec.Roles := []\<rparr>)
              (filter (\<lambda>fileAsset. applies_to_role (InstanceGroupSpec.Role (InstanceGroup.Spec ig))
                                      (FileAssetSpec.Roles fileAsset))
                 (ClusterSpec.FileAssets (Cluster.Spec cluster)))"
    using NewConfig_Hooks_FileAssets(2)[OF r] by (simp add: filterFileAssets_eq)
qed

text \<open>The scenario of the specification: a cluster hook without roles and an instance-group
  hook for \<^verbatim>\<open>control-plane\<close>, assembled for an instance group of role \<^verbatim>\<open>worker\<close>; only
  the hook of the cluster is in the node configuration. And the same cluster with the
  \<^verbatim>\<open>control-plane\<close> instance group, whose hook and file asset for \<^verbatim>\<open>worker\<close> are
  left out, like the file asset of the cluster for \<^verbatim>\<open>worker\<close>.\<close>

theorem role_filter_keeps_applicable_witness:
  "(\<exists>config bootConfig.
      NewConfig kops_example cluster_aws_example ig_worker_example = Inr (config, bootConfig)
      \<and> Config.Hooks config = [[], [hook_all\<lparr>HookSpec.Roles := []\<rparr>]]
      \<and> Config.FileAssets config =
          [asset_all\<lparr>FileAssetSpec.Roles := []\<rparr>, asset_worker\<lparr>FileAssetSpec.Roles := []\<rparr>])
   \<and> (\<exists>config bootConfig.
      NewConfig kops_example cluster_aws_example ig_control_plane_example
        = Inr (config, bootConfig)
      \<and> Config.Hooks config
          = [[hook_all\<lparr>HookSpec.Roles := []\<rparr>], [hook_all\<lparr>HookSpec.Roles := []\<rparr>]]
      \<and> Config.FileAssets config = [asset_all\<lparr>FileAssetSpec.Roles := []\<rparr>])"
proof -
  obtain config1 bootConfig1 where
    r1: "NewConfig kops_example cluster_aws_example ig_worker_example = Inr (config1, bootConfig1)"
    using NewConfig_returns[OF kops_example_nil_safe] by blast
  obtain config2 bootConfig2 where
    r2: "NewConfig kops_example cluster_aws_example ig_control_plane_example
           = Inr (config2, bootConfig2)"
    using NewConfig_returns[OF kops_example_nil_safe] by blast
  have "Config.Hooks config1 = [[], [hook_all\<lparr>HookSpec.Roles := []\<rparr>]]
     \<and> Config.FileAssets config1 =
         [asset_all\<lparr>FileAssetSpec.Roles := []\<rparr>, asset_worker\<lparr>FileAssetSpec.Roles := []\<rparr>]"
    using r1 role_filter_keeps_applicable
            [of "[]" "[]" "[]" kops_example cluster_aws_example ig_worker_example config1 bootConfig1]
    by (simp add: example_defs applies_to_role_def)
  moreover have "Config.Hooks config2
          = [[hook_all\<lparr>HookSpec.Roles := []\<rparr>], [hook_all\<lparr>HookSpec.Roles := []\<rparr>]]
     \<and> Config.FileAssets config2 = [asset_all\<lparr>FileAssetSpec.Roles := []\<rparr>]"
    using r2 role_filter_keeps_applicable
            [of "[]" "[]" "[]" kops_example cluster_aws_example ig_control_plane_example
                config2 bootConfig2]
    by (simp add: example_defs applies_to_role_def)
  ultimately show ?thesis
    using r1 r2 by blast
qed

text \<open>
  C3. Every hook and every file asset that a role filter returns has an empty role list,
  whatever the role list of the input element was; so has every hook and every file asset
  of the node configuration that \<^verbatim>\<open>NewConfig\<close> returns.
\<close>

theorem role_filter_clears_roles:
  "(\<forall>hook \<in> set (filterHooks h role). HookSpec.Roles hook = [])
   \<and> (\<forall>fileAsset \<in> set (filterFileAssets f role). FileAssetSpec.Roles fileAsset = [])
   \<and> (NewConfig kops cluster ig = Inr (config, bootConfig) \<longrightarrow>
        (\<forall>hooks \<in> set (Config.Hooks config). \<forall>hook \<in> set hooks. HookSpec.Roles hook = [])
        \<and> (\<forall>fileAsset \<in> set (Config.FileAssets config). FileAssetSpec.Roles fileAsset = []))"
proof (intro conjI impI)
  show h: "\<forall>hook \<in> set (filterHooks h role). HookSpec.Roles hook = []" for h role
    by (auto simp: filterHooks_eq)
  show f: "\<forall>fileAsset \<in> set (filterFileAssets f role). FileAssetSpec.Roles fileAsset = []"
    for f role
    by (auto simp: filterFileAssets_eq)
  assume r: "NewConfig kops cluster ig = Inr (config, bootConfig)"
  show "\<forall>hooks \<in> set (Config.Hooks config). \<forall>hook \<in> set hooks. HookSpec.Roles hook = []"
    using h by (simp add: NewConfig_Hooks_FileAssets(1)[OF r])
  show "\<forall>fileAsset \<in> set (Config.FileAssets config). FileAssetSpec.Roles fileAsset = []"
    using f by (auto simp: NewConfig_Hooks_FileAssets(2)[OF r])
qed

theorem role_filter_clears_roles_witness:
  "filterHooks [hook_all, hook_worker, hook_control_plane] ''worker''
     = [hook_all\<lparr>HookSpec.Roles := []\<rparr>, hook_worker\<lparr>HookSpec.Roles := []\<rparr>]
   \<and> HookSpec.Roles (hook_worker\<lparr>HookSpec.Roles := []\<rparr>) = []
   \<and> filterFileAssets [asset_worker] ''worker'' = [asset_worker\<lparr>FileAssetSpec.Roles := []\<rparr>]
   \<and> FileAssetSpec.Roles (asset_worker\<lparr>FileAssetSpec.Roles := []\<rparr>) = []
   \<and> (\<exists>config bootConfig.
        NewConfig kops_example cluster_aws_example ig_control_plane_example
          = Inr (config, bootConfig)
        \<and> map (map HookSpec.Roles) (Config.Hooks config) = [[[]], [[]]]
        \<and> map FileAssetSpec.Roles (Config.FileAssets config) = [[]])"
proof -
  obtain config bootConfig where
    r: "NewConfig kops_example cluster_aws_example ig_control_plane_example
          = Inr (config, bootConfig)"
    using NewConfig_returns[OF kops_example_nil_safe] by blast
  have len: "map length (Config.Hooks config) = [1, 1]" "length (Config.FileAssets config) = 1"
    using NewConfig_Hooks_FileAssets[OF r]
    by (simp_all add: example_defs filterHooks_eq filterFileAssets_eq applies_to_role_def)
  note c = role_filter_clears_roles
      [of "[hook_all, hook_worker, hook_control_plane]" "''worker''" "[asset_worker]"
          kops_example cluster_aws_example ig_control_plane_example config bootConfig]
  have hooks: "\<forall>hooks \<in> set (Config.Hooks config). \<forall>hook \<in> set hooks. HookSpec.Roles hook = []"
    and assets: "\<forall>fileAsset \<in> set (Config.FileAssets config). FileAssetSpec.Roles fileAsset = []"
    using c r by blast+
  have "map (map HookSpec.Roles) (Config.Hooks config) = [[[]], [[]]]"
  proof -
    obtain a b where ab: "Config.Hooks config = [a, b]" "length a = 1" "length b = 1"
      using len(1) by (auto simp: map_eq_Cons_conv)
    then obtain x y where "a = [x]" "b = [y]"
      by (auto simp: length_Suc_conv)
    then show ?thesis
      using hooks ab by simp
  qed
  moreover have "map FileAssetSpec.Roles (Config.FileAssets config) = [[]]"
  proof -
    obtain x where "Config.FileAssets config = [x]"
      using len(2) by (auto simp: length_Suc_conv)
    then show ?thesis
      using assets by simp
  qed
  moreover have "filterHooks [hook_all, hook_worker, hook_control_plane] ''worker''
     = [hook_all\<lparr>HookSpec.Roles := []\<rparr>, hook_worker\<lparr>HookSpec.Roles := []\<rparr>]"
    "filterFileAssets [asset_worker] ''worker'' = [asset_worker\<lparr>FileAssetSpec.Roles := []\<rparr>]"
    by (simp_all add: filterHooks_def filterFileAssets_def example_defs)
  ultimately show ?thesis
    using r by simp
qed

section \<open>Fields of the node configuration\<close>

text \<open>
  C5. Whenever \<^verbatim>\<open>NewConfig\<close> returns, \<^verbatim>\<open>UseInstanceIDForNodeName\<close> of the node
  configuration is true if and only if the cluster configures an external
  cloud-controller-manager and the cloud provider of the cluster is AWS, which is the value
  of \<^verbatim>\<open>UsesInstanceIDForNodeName\<close>.
\<close>

theorem NewConfig_UseInstanceIDForNodeName:
  assumes "NewConfig kops cluster ig = Inr (config, bootConfig)"
  shows "Config.UseInstanceIDForNodeName config
           = (ClusterSpec.ExternalCloudControllerManager (Cluster.Spec cluster) \<noteq> None
              \<and> GetCloudProvider kops (Cluster.Spec cluster) = CloudProviderAWS kops)
         \<and> Config.UseInstanceIDForNodeName config = UsesInstanceIDForNodeName kops cluster"
  using assms by (auto simp: NewConfig_eq UsesInstanceIDForNodeName_def split: if_splits)

theorem NewConfig_UseInstanceIDForNodeName_witness:
  "(\<exists>config bootConfig.
      NewConfig kops_example cluster_aws_example ig_worker_example = Inr (config, bootConfig)
      \<and> Config.UseInstanceIDForNodeName config)
   \<and> (\<exists>config bootConfig.
      NewConfig kops_example cluster_gce_example ig_worker_example = Inr (config, bootConfig)
      \<and> \<not> Config.UseInstanceIDForNodeName config)"
proof -
  obtain config1 bootConfig1 where
    r1: "NewConfig kops_example cluster_aws_example ig_worker_example = Inr (config1, bootConfig1)"
    using NewConfig_returns[OF kops_example_nil_safe] by blast
  obtain config2 bootConfig2 where
    r2: "NewConfig kops_example cluster_gce_example ig_worker_example = Inr (config2, bootConfig2)"
    using NewConfig_returns[OF kops_example_nil_safe] by blast
  have "Config.UseInstanceIDForNodeName config1"
    using NewConfig_UseInstanceIDForNodeName[OF r1] by (simp add: example_defs)
  moreover have "\<not> Config.UseInstanceIDForNodeName config2"
    using NewConfig_UseInstanceIDForNodeName[OF r2] by (simp add: example_defs)
  ultimately show ?thesis
    using r1 r2 by blast
qed

text \<open>
  C6. Whenever \<^verbatim>\<open>NewConfig\<close> returns: when the networking of the cluster configures
  AmazonVPC, \<^verbatim>\<open>DefaultMachineType\<close> of the node configuration points to the first
  comma-separated element of the machine type of the instance group, that is element 0 of
  \<^verbatim>\<open>strings.Split\<close>, the bytes before the first comma (all of them when there is no
  comma); otherwise \<^verbatim>\<open>DefaultMachineType\<close> is \<^verbatim>\<open>nil\<close>.
\<close>

theorem NewConfig_DefaultMachineType:
  assumes "NewConfig kops cluster ig = Inr (config, bootConfig)"
  shows "Config.DefaultMachineType config =
          (if NetworkingSpec.AmazonVPC (ClusterSpec.Networking (Cluster.Spec cluster)) \<noteq> None
           then Some (hd (strings_Split (InstanceGroupSpec.MachineType (InstanceGroup.Spec ig))
                            (CHR '','')))
           else None)
         \<and> strings_Split (InstanceGroupSpec.MachineType (InstanceGroup.Spec ig)) (CHR '','') \<noteq> []
         \<and> hd (strings_Split (InstanceGroupSpec.MachineType (InstanceGroup.Spec ig)) (CHR '',''))
             = takeWhile (\<lambda>c. c \<noteq> CHR '','')
                 (InstanceGroupSpec.MachineType (InstanceGroup.Spec ig))"
  using assms strings_Split_Cons[of "InstanceGroupSpec.MachineType (InstanceGroup.Spec ig)" "CHR '',''"]
  by (auto simp: NewConfig_eq split: if_splits)

theorem NewConfig_DefaultMachineType_witness:
  "(\<exists>config bootConfig.
      NewConfig kops_example cluster_aws_example ig_worker_example = Inr (config, bootConfig)
      \<and> Config.DefaultMachineType config = Some ''m5.large'')
   \<and> (\<exists>config bootConfig.
      NewConfig kops_example cluster_gce_example ig_worker_example = Inr (config, bootConfig)
      \<and> Config.DefaultMachineType config = None)"
proof -
  obtain config1 bootConfig1 where
    r1: "NewConfig kops_example cluster_aws_example ig_worker_example = Inr (config1, bootConfig1)"
    using NewConfig_returns[OF kops_example_nil_safe] by blast
  obtain config2 bootConfig2 where
    r2: "NewConfig kops_example cluster_gce_example ig_worker_example = Inr (config2, bootConfig2)"
    using NewConfig_returns[OF kops_example_nil_safe] by blast
  have "Config.DefaultMachineType config1 = Some ''m5.large''"
    using NewConfig_DefaultMachineType[OF r1] by (simp add: example_defs)
  moreover have "Config.DefaultMachineType config2 = None"
    using NewConfig_DefaultMachineType[OF r2] by (simp add: example_defs)
  ultimately show ?thesis
    using r1 r2 by blast
qed

text \<open>
  C7. Whenever \<^verbatim>\<open>NewConfig\<close> returns, \<^verbatim>\<open>APIServerConfig\<close> of the node configuration is
  not \<^verbatim>\<open>nil\<close> if and only if the instance group hosts an API server
  (\<^verbatim>\<open>HasAPIServer\<close>); it then points to a value whose \<^verbatim>\<open>KubeAPIServer\<close> is that of the
  cluster and whose other fields are empty.
\<close>

theorem NewConfig_APIServerConfig:
  assumes "NewConfig kops cluster ig = Inr (config, bootConfig)"
  shows "(Config.APIServerConfig config \<noteq> None) = HasAPIServer kops ig
         \<and> Config.APIServerConfig config =
          (if HasAPIServer kops ig
           then Some \<lparr>APIServerConfig.KubeAPIServer = ClusterSpec.KubeAPIServer (Cluster.Spec cluster),
                      EncryptionConfigSecretHash = [], ServiceAccountPublicKeys = []\<rparr>
           else None)"
  using assms by (auto simp: NewConfig_eq split: if_splits)

theorem NewConfig_APIServerConfig_witness:
  "(\<exists>config bootConfig.
      NewConfig kops_example cluster_aws_example ig_control_plane_example = Inr (config, bootConfig)
      \<and> Config.APIServerConfig config =
          Some \<lparr>APIServerConfig.KubeAPIServer = Some [(''image'', ''kube-apiserver'')],
                EncryptionConfigSecretHash = [], ServiceAccountPublicKeys = []\<rparr>)
   \<and> (\<exists>config bootConfig.
      NewConfig kops_example cluster_aws_example ig_worker_example = Inr (config, bootConfig)
      \<and> Config.APIServerConfig config = None)"
proof -
  obtain config1 bootConfig1 where
    r1: "NewConfig kops_example cluster_aws_example ig_control_plane_example
           = Inr (config1, bootConfig1)"
    using NewConfig_returns[OF kops_example_nil_safe] by blast
  obtain config2 bootConfig2 where
    r2: "NewConfig kops_example cluster_aws_example ig_worker_example = Inr (config2, bootConfig2)"
    using NewConfig_returns[OF kops_example_nil_safe] by blast
  have "Config.APIServerConfig config1 =
          Some \<lparr>APIServerConfig.KubeAPIServer = Some [(''image'', ''kube-apiserver'')],
                EncryptionConfigSecretHash = [], ServiceAccountPublicKeys = []\<rparr>"
    using NewConfig_APIServerConfig[OF r1] by (simp add: example_defs)
  moreover have "Config.APIServerConfig config2 = None"
    using NewConfig_APIServerConfig[OF r2] by (simp add: example_defs)
  ultimately show ?thesis
    using r1 r2 by blast
qed

text \<open>
  C8 (as amended). Whenever \<^verbatim>\<open>NewConfig\<close> returns: the AWS fields
  \<^verbatim>\<open>DisableSecurityGroupIngress\<close>, \<^verbatim>\<open>ElbSecurityGroup\<close> and \<^verbatim>\<open>NodeIPFamilies\<close> are copied
  from the AWS block of the cluster only when that block is present and the instance group
  hosts an API server or the Kubernetes version of the cluster is below 1.24, and are left
  unset otherwise; the GCE fields \<^verbatim>\<open>Multizone\<close>, \<^verbatim>\<open>NodeTags\<close> and
  \<^verbatim>\<open>NodeInstancePrefix\<close> are copied from the GCE block of the cluster whenever that block
  is present, under no capability gate, and are left unset otherwise.
\<close>

theorem NewConfig_provider_fields:
  assumes "NewConfig kops cluster ig = Inr (config, bootConfig)"
  shows "(Config.DisableSecurityGroupIngress config, Config.ElbSecurityGroup config,
          Config.NodeIPFamilies config) =
           (case CloudProviderSpec.AWS (ClusterSpec.CloudProvider (Cluster.Spec cluster)) of
              None \<Rightarrow> (None, None, [])
            | Some aws \<Rightarrow>
                if HasAPIServer kops ig \<or> IsKubernetesLT kops cluster ''1.24''
                then (AWSSpec.DisableSecurityGroupIngress aws, AWSSpec.ElbSecurityGroup aws,
                      AWSSpec.NodeIPFamilies aws)
                else (None, None, []))
         \<and> (Config.Multizone config, Config.NodeTags config, Config.NodeInstancePrefix config) =
           (case CloudProviderSpec.GCE (ClusterSpec.CloudProvider (Cluster.Spec cluster)) of
              None \<Rightarrow> (None, None, None)
            | Some gce \<Rightarrow>
                (GCESpec.Multizone gce, GCESpec.NodeTags gce, GCESpec.NodeInstancePrefix gce))"
proof -
  have aws: "Config.DisableSecurityGroupIngress config =
      (case CloudProviderSpec.AWS (ClusterSpec.CloudProvider (Cluster.Spec cluster)) of
         None \<Rightarrow> None
       | Some aws \<Rightarrow>
           if HasAPIServer kops ig \<or> IsKubernetesLT kops cluster ''1.24''
           then AWSSpec.DisableSecurityGroupIngress aws else None)"
    "Config.ElbSecurityGroup config =
      (case CloudProviderSpec.AWS (ClusterSpec.CloudProvider (Cluster.Spec cluster)) of
         None \<Rightarrow> None
       | Some aws \<Rightarrow>
           if HasAPIServer kops ig \<or> IsKubernetesLT kops cluster ''1.24''
           then AWSSpec.ElbSecurityGroup aws else None)"
    "Config.NodeIPFamilies config =
      (case CloudProviderSpec.AWS (ClusterSpec.CloudProvider (Cluster.Spec cluster)) of
         None \<Rightarrow> []
       | Some aws \<Rightarrow>
           if HasAPIServer kops ig \<or> IsKubernetesLT kops cluster ''1.24''
           then AWSSpec.NodeIPFamilies aws else [])"
    using assms by (auto simp: NewConfig_eq split: if_splits)
  have gce: "Config.Multizone config =
      (case CloudProviderSpec.GCE (ClusterSpec.CloudProvider (Cluster.Spec cluster)) of
         None \<Rightarrow> None | Some gce \<Rightarrow> GCESpec.Multizone gce)"
    "Config.NodeTags config =
      (case CloudProviderSpec.GCE (ClusterSpec.CloudProvider (Cluster.Spec cluster)) of
         None \<Rightarrow> None | Some gce \<Rightarrow> GCESpec.NodeTags gce)"
    "Config.NodeInstancePrefix config =
      (case CloudProviderSpec.GCE (ClusterSpec.CloudProvider (Cluster.Spec cluster)) of
         None \<Rightarrow> None | Some gce \<Rightarrow> GCESpec.NodeInstancePrefix gce)"
    using assms by (auto simp: NewConfig_eq split: if_splits)
  show ?thesis
    unfolding aws gce by (simp split: option.splits)
qed

theorem NewConfig_provider_fields_witness:
  "(\<exists>config bootConfig.
      NewConfig kops_example cluster_aws_example ig_control_plane_example = Inr (config, bootConfig)
      \<and> Config.DisableSecurityGroupIngress config = Some True
      \<and> Config.ElbSecurityGroup config = Some ''sg-0123''
      \<and> Config.NodeIPFamilies config = [''ipv4''])
   \<and> (\<exists>config bootConfig.
      NewConfig kops_example cluster_aws_example ig_worker_example = Inr (config, bootConfig)
      \<and> Config.DisableSecurityGroupIngress config = None
      \<and> Config.ElbSecurityGroup config = None
      \<and> Config.NodeIPFamilies config = []
      \<and> Config.NodeTags config = None)"
proof -
  obtain config1 bootConfig1 where
    r1: "NewConfig kops_example cluster_aws_example ig_control_plane_example
           = Inr (config1, bootConfig1)"
    using NewConfig_returns[OF kops_example_nil_safe] by blast
  obtain config2 bootConfig2 where
    r2: "NewConfig kops_example cluster_aws_example ig_worker_example = Inr (config2, bootConfig2)"
    using NewConfig_returns[OF kops_example_nil_safe] by blast
  have "Config.DisableSecurityGroupIngress config1 = Some True
      \<and> Config.ElbSecurityGroup config1 = Some ''sg-0123''
      \<and> Config.NodeIPFamilies config1 = [''ipv4'']"
    using NewConfig_provider_fields[OF r1] by (simp add: example_defs)
  moreover have "Config.DisableSecurityGroupIngress config2 = None
      \<and> Config.ElbSecurityGroup config2 = None
      \<and> Config.NodeIPFamilies config2 = []
      \<and> Config.NodeTags config2 = None"
    using NewConfig_provider_fields[OF r2] by (simp add: example_defs)
  ultimately show ?thesis
    using r1 r2 by blast
qed

text \<open>On the GCE example cluster and the worker instance group, which hosts no API server
  and whose cluster is not below version 1.24, \<^verbatim>\<open>NewConfig\<close> returns a node configuration
  with the three GCE fields set.\<close>

theorem NewConfig_gce_fields_not_gated:
  "\<not> HasAPIServer kops_example ig_worker_example
   \<and> \<not> IsKubernetesLT kops_example cluster_gce_example ''1.24''
   \<and> \<not> isl (NewConfig kops_example cluster_gce_example ig_worker_example)
   \<and> Config.NodeTags (fst (projr (NewConfig kops_example cluster_gce_example ig_worker_example)))
       = Some ''example-k8s-local-node''
   \<and> Config.NodeInstancePrefix
       (fst (projr (NewConfig kops_example cluster_gce_example ig_worker_example)))
       = Some ''example''
   \<and> Config.Multizone (fst (projr (NewConfig kops_example cluster_gce_example ig_worker_example)))
       = Some True"
  by (simp add: NewConfig_eq example_defs)

text \<open>
  C10 (as amended). Whenever \<^verbatim>\<open>NewConfig\<close> returns, \<^verbatim>\<open>UpdatePolicy\<close> of the node
  configuration is the string that the update policy of the instance group points to when
  that pointer is set, otherwise the string that the update policy of the cluster points
  to when that pointer is set, otherwise the automatic update policy. It is not empty
  whenever neither configured policy is the empty string and the automatic policy is not the
  empty string; a policy that is set to the empty string is copied as it is.
\<close>

theorem NewConfig_UpdatePolicy_fallback:
  assumes "NewConfig kops cluster ig = Inr (config, bootConfig)"
  shows "Config.UpdatePolicy config =
          (case InstanceGroupSpec.UpdatePolicy (InstanceGroup.Spec ig) of
             Some p \<Rightarrow> p
           | None \<Rightarrow>
               (case ClusterSpec.UpdatePolicy (Cluster.Spec cluster) of
                  Some p \<Rightarrow> p
                | None \<Rightarrow> UpdatePolicyAutomatic kops))
         \<and> (InstanceGroupSpec.UpdatePolicy (InstanceGroup.Spec ig) \<noteq> Some []
              \<and> ClusterSpec.UpdatePolicy (Cluster.Spec cluster) \<noteq> Some []
              \<and> UpdatePolicyAutomatic kops \<noteq> []
            \<longrightarrow> Config.UpdatePolicy config \<noteq> [])"
proof -
  have p: "Config.UpdatePolicy config =
          (case InstanceGroupSpec.UpdatePolicy (InstanceGroup.Spec ig) of
             Some p \<Rightarrow> p
           | None \<Rightarrow>
               (case ClusterSpec.UpdatePolicy (Cluster.Spec cluster) of
                  Some p \<Rightarrow> p
                | None \<Rightarrow> UpdatePolicyAutomatic kops))"
    using assms by (auto simp: NewConfig_eq split: if_splits)
  show ?thesis
    unfolding p by (simp split: option.splits)
qed

theorem NewConfig_UpdatePolicy_fallback_witness:
  "(\<exists>config bootConfig.
      NewConfig kops_example cluster_gce_example ig_control_plane_example = Inr (config, bootConfig)
      \<and> Config.UpdatePolicy config = ''external'')
   \<and> (\<exists>config bootConfig.
      NewConfig kops_example cluster_gce_example ig_worker_example = Inr (config, bootConfig)
      \<and> Config.UpdatePolicy config = ''external'')
   \<and> (\<exists>config bootConfig.
      NewConfig kops_example cluster_aws_example ig_worker_example = Inr (config, bootConfig)
      \<and> Config.UpdatePolicy config = ''automatic'')"
proof -
  obtain config1 bootConfig1 where
    r1: "NewConfig kops_example cluster_gce_example ig_control_plane_example
           = Inr (config1, bootConfig1)"
    using NewConfig_returns[OF kops_example_nil_safe] by blast
  obtain config2 bootConfig2 where
    r2: "NewConfig kops_example cluster_gce_example ig_worker_example = Inr (config2, bootConfig2)"
    using NewConfig_returns[OF kops_example_nil_safe] by blast
  obtain config3 bootConfig3 where
    r3: "NewConfig kops_example cluster_aws_example ig_worker_example = Inr (config3, bootConfig3)"
    using NewConfig_returns[OF kops_example_nil_safe] by blast
  have "Config.UpdatePolicy config1 = ''external''"
    using NewConfig_UpdatePolicy_fallback[OF r1] by (simp add: example_defs)
  moreover have "Config.UpdatePolicy config2 = ''external''"
    using NewConfig_UpdatePolicy_fallback[OF r2] by (simp add: example_defs)
  moreover have "Config.UpdatePolicy config3 = ''automatic''"
    using NewConfig_UpdatePolicy_fallback[OF r3] by (simp add: example_defs)
  ultimately show ?thesis
    using r1 r2 r3 by blast
qed

text \<open>On the AWS example cluster and the instance group whose update policy is set to the
  empty string, \<^verbatim>\<open>NewConfig\<close> returns a node configuration with an empty
  \<^verbatim>\<open>UpdatePolicy\<close>.\<close>

theorem NewConfig_UpdatePolicy_left_empty:
  "\<not> isl (NewConfig kops_example cluster_aws_example ig_empty_policy_example)
   \<and> Config.UpdatePolicy
       (fst (projr (NewConfig kops_example cluster_aws_example ig_empty_policy_example))) = []"
  by (simp add: NewConfig_eq example_defs)

section \<open>NewConfig on the store\<close>

text \<open>Every cluster and instance group is held by some store, for instance the one with
  an array for each of the four slices.\<close>

lemma inputs_in_memory_exists:
  "inputs_in_memory
     \<lparr>hookArrays = [ClusterSpec.Hooks (Cluster.Spec cluster),
                    InstanceGroupSpec.Hooks (InstanceGroup.Spec ig)],
      fileAssetArrays = [InstanceGroupSpec.FileAssets (InstanceGroup.Spec ig),
                         ClusterSpec.FileAssets (Cluster.Spec cluster)]\<rparr>
     \<lparr>array = Some 0, off = 0, len = length (ClusterSpec.Hooks (Cluster.Spec cluster)),
      cap = length (ClusterSpec.Hooks (Cluster.Spec cluster))\<rparr>
     \<lparr>array = Some 1, off = 0, len = length (InstanceGroupSpec.Hooks (InstanceGroup.Spec ig)),
      cap = length (InstanceGroupSpec.Hooks (InstanceGroup.Spec ig))\<rparr>
     \<lparr>array = Some 0, off = 0,
      len = length (InstanceGroupSpec.FileAssets (InstanceGroup.Spec ig)),
      cap = length (InstanceGroupSpec.FileAssets (InstanceGroup.Spec ig))\<rparr>
     \<lparr>array = Some 1, off = 0, len = length (ClusterSpec.FileAssets (Cluster.Spec cluster)),
      cap = length (ClusterSpec.FileAssets (Cluster.Spec cluster))\<rparr>
     cluster ig"
  by (simp add: inputs_in_memory_def slice_ok_def slice_elems_def)

lemma memory_examples_hold:
  "inputs_in_memory memory_example clusterHooks_example igHooks_example nil_slice
     clusterFileAssets_example cluster_aws_example ig_worker_example"
  "inputs_in_memory memory_example2 clusterHooks_example2 igHooks_example2 igFileAssets_example2
     clusterFileAssets_example2 cluster_aws_example ig_worker_example"
  by (simp_all add: inputs_in_memory_def memory_example_def memory_example2_def
        clusterHooks_example_def igHooks_example_def clusterFileAssets_example_def
        clusterHooks_example2_def igHooks_example2_def igFileAssets_example2_def
        clusterFileAssets_example2_def nil_slice_def slice_ok_def slice_elems_def
        cluster_aws_example_def ig_worker_example_def)

text \<open>
  Two runs, computed. On the first example store the filters allocate an array for each
  element they keep after the first (doubling), and \<^verbatim>\<open>append\<close> on line 171 allocates
  the array of the result. On the second, with one spare cell at each allocation, the
  second file asset is written in place into the array that the filter allocated. In both
  the arrays of the inputs are as before.
\<close>

lemma NewConfig_mem_example:
  "NewConfig_mem growcap_double growcap_double memory_example clusterHooks_example
     igHooks_example nil_slice clusterFileAssets_example ''worker''
   = Inr ((nil_slice,
           \<lparr>array = Some 2, off = 0, len = 1, cap = 1\<rparr>,
           \<lparr>array = Some 3, off = 0, len = 2, cap = 2\<rparr>),
          \<lparr>hookArrays =
             [[hook_all, HookSpec_zero], [hook_control_plane], [hook_all\<lparr>HookSpec.Roles := []\<rparr>]],
           fileAssetArrays =
             [[asset_all, asset_worker],
              [asset_all\<lparr>FileAssetSpec.Roles := []\<rparr>],
              [asset_all\<lparr>FileAssetSpec.Roles := []\<rparr>, asset_worker\<lparr>FileAssetSpec.Roles := []\<rparr>],
              [asset_all\<lparr>FileAssetSpec.Roles := []\<rparr>,
               asset_worker\<lparr>FileAssetSpec.Roles := []\<rparr>]]\<rparr>)"
  by (simp add: NewConfig_mem_def filterHooks_mem_def filterFileAssets_mem_def
        filterHooks_mem_loop.simps filterFileAssets_mem_loop.simps go_append_def
        slice_index_def slice_elems_def nil_slice_def Let_def
        memory_example_def clusterHooks_example_def igHooks_example_def
        clusterFileAssets_example_def growcap_double_def
        hook_all_def hook_control_plane_def asset_all_def asset_worker_def HookSpec_zero_def
        FileAssetSpec_zero_def)

lemma NewConfig_mem_example2:
  "NewConfig_mem growcap_spare growcap_spare memory_example2 clusterHooks_example2
     igHooks_example2 igFileAssets_example2 clusterFileAssets_example2 ''worker''
   = Inr ((nil_slice,
           \<lparr>array = Some 1, off = 0, len = 1, cap = 2\<rparr>,
           \<lparr>array = Some 2, off = 0, len = 2, cap = 3\<rparr>),
          \<lparr>hookArrays =
             [[hook_control_plane, hook_all], [hook_all\<lparr>HookSpec.Roles := []\<rparr>, HookSpec_zero]],
           fileAssetArrays =
             [[FileAssetSpec_zero, asset_all, asset_worker, FileAssetSpec_zero],
              [asset_all\<lparr>FileAssetSpec.Roles := []\<rparr>, asset_worker\<lparr>FileAssetSpec.Roles := []\<rparr>],
              [asset_all\<lparr>FileAssetSpec.Roles := []\<rparr>, asset_worker\<lparr>FileAssetSpec.Roles := []\<rparr>,
               FileAssetSpec_zero]]\<rparr>)"
  by (simp add: NewConfig_mem_def filterHooks_mem_def filterFileAssets_mem_def
        filterHooks_mem_loop.simps filterFileAssets_mem_loop.simps go_append_def
        slice_index_def slice_elems_def nil_slice_def Let_def
        memory_example2_def clusterHooks_example2_def igHooks_example2_def
        igFileAssets_example2_def clusterFileAssets_example2_def growcap_spare_def
        hook_all_def hook_control_plane_def asset_all_def asset_worker_def HookSpec_zero_def
        FileAssetSpec_zero_def)

text \<open>
  C9. \<^verbatim>\<open>NewConfig\<close> does not write to its inputs. In every store that holds the slices of
  the cluster and of the instance group, the statements of \<^verbatim>\<open>NewConfig\<close> that allocate
  or write run to the end; every backing array that existed at the call is the same after
  it (with the cells beyond the length of the input slices), so the store still holds the
  same cluster and instance group, with the role lists of their hooks and file assets; the
  three slices of the node configuration are \<^verbatim>\<open>nil\<close> or lie in arrays allocated during
  the call, and it is these copies that have the role lists cleared.
\<close>

theorem NewConfig_leaves_inputs_unchanged:
  assumes "inputs_in_memory mem clusterHooksIn igHooksIn igFileAssetsIn clusterFileAssetsIn
             cluster ig"
  shows "\<exists>igHooks clusterHooks fileAssets mem'.
           NewConfig_mem growH growF mem clusterHooksIn igHooksIn igFileAssetsIn
               clusterFileAssetsIn (InstanceGroupSpec.Role (InstanceGroup.Spec ig))
             = Inr ((igHooks, clusterHooks, fileAssets), mem')
           \<and> take (length (hookArrays mem)) (hookArrays mem') = hookArrays mem
           \<and> take (length (fileAssetArrays mem)) (fileAssetArrays mem') = fileAssetArrays mem
           \<and> inputs_in_memory mem' clusterHooksIn igHooksIn igFileAssetsIn clusterFileAssetsIn
                cluster ig
           \<and> slice_fresh (length (hookArrays mem)) igHooks
           \<and> slice_fresh (length (hookArrays mem)) clusterHooks
           \<and> slice_fresh (length (fileAssetArrays mem)) fileAssets
           \<and> slice_elems (hookArrays mem') igHooks
               = filterHooks (InstanceGroupSpec.Hooks (InstanceGroup.Spec ig))
                   (InstanceGroupSpec.Role (InstanceGroup.Spec ig))
           \<and> slice_elems (hookArrays mem') clusterHooks
               = filterHooks (ClusterSpec.Hooks (Cluster.Spec cluster))
                   (InstanceGroupSpec.Role (InstanceGroup.Spec ig))
           \<and> slice_elems (fileAssetArrays mem') fileAssets
               = filterFileAssets (InstanceGroupSpec.FileAssets (InstanceGroup.Spec ig))
                   (InstanceGroupSpec.Role (InstanceGroup.Spec ig))
                 @ filterFileAssets (ClusterSpec.FileAssets (Cluster.Spec cluster))
                     (InstanceGroupSpec.Role (InstanceGroup.Spec ig))"
proof -
  let ?role = "InstanceGroupSpec.Role (InstanceGroup.Spec ig)"
  have ok: "slice_ok (hookArrays mem) clusterHooksIn" "slice_ok (hookArrays mem) igHooksIn"
    "slice_ok (fileAssetArrays mem) igFileAssetsIn"
    "slice_ok (fileAssetArrays mem) clusterFileAssetsIn"
    and el: "slice_elems (hookArrays mem) clusterHooksIn = ClusterSpec.Hooks (Cluster.Spec cluster)"
    "slice_elems (hookArrays mem) igHooksIn = InstanceGroupSpec.Hooks (InstanceGroup.Spec ig)"
    "slice_elems (fileAssetArrays mem) igFileAssetsIn
       = InstanceGroupSpec.FileAssets (InstanceGroup.Spec ig)"
    "slice_elems (fileAssetArrays mem) clusterFileAssetsIn
       = ClusterSpec.FileAssets (Cluster.Spec cluster)"
    using assms by (simp_all add: inputs_in_memory_def)
  obtain igHooks clusterHooks fileAssets freshH freshF where
    run: "NewConfig_mem growH growF mem clusterHooksIn igHooksIn igFileAssetsIn
              clusterFileAssetsIn ?role
            = Inr ((igHooks, clusterHooks, fileAssets),
                   \<lparr>hookArrays = hookArrays mem @ freshH,
                    fileAssetArrays = fileAssetArrays mem @ freshF\<rparr>)"
    and fresh: "slice_fresh (length (hookArrays mem)) igHooks"
      "slice_fresh (length (hookArrays mem)) clusterHooks"
      "slice_fresh (length (fileAssetArrays mem)) fileAssets"
    and out: "slice_elems (hookArrays mem @ freshH) igHooks
               = filterHooks (slice_elems (hookArrays mem) igHooksIn) ?role"
      "slice_elems (hookArrays mem @ freshH) clusterHooks
               = filterHooks (slice_elems (hookArrays mem) clusterHooksIn) ?role"
      "slice_elems (fileAssetArrays mem @ freshF) fileAssets
               = filterFileAssets (slice_elems (fileAssetArrays mem) igFileAssetsIn) ?role
                 @ filterFileAssets (slice_elems (fileAssetArrays mem) clusterFileAssetsIn) ?role"
    using NewConfig_mem_refines[OF ok, of growH growF ?role] by blast
  let ?mem' = "\<lparr>hookArrays = hookArrays mem @ freshH,
                fileAssetArrays = fileAssetArrays mem @ freshF\<rparr>"
  have still: "inputs_in_memory ?mem' clusterHooksIn igHooksIn igFileAssetsIn
      clusterFileAssetsIn cluster ig"
    using ok el slice_extend[of "hookArrays mem" _ freshH]
      slice_extend[of "fileAssetArrays mem" _ freshF]
    by (simp add: inputs_in_memory_def)
  show ?thesis
    by (rule exI[of _ igHooks], rule exI[of _ clusterHooks], rule exI[of _ fileAssets],
        rule exI[of _ ?mem'])
       (simp add: run fresh out still el)
qed

theorem NewConfig_leaves_inputs_unchanged_witness:
  "inputs_in_memory memory_example clusterHooks_example igHooks_example nil_slice
     clusterFileAssets_example cluster_aws_example ig_worker_example
   \<and> (\<exists>igHooks clusterHooks fileAssets mem'.
        NewConfig_mem growcap_double growcap_double memory_example clusterHooks_example
            igHooks_example nil_slice clusterFileAssets_example ''worker''
          = Inr ((igHooks, clusterHooks, fileAssets), mem')
        \<and> take 2 (hookArrays mem') = [[hook_all, HookSpec_zero], [hook_control_plane]]
        \<and> take 1 (fileAssetArrays mem') = [[asset_all, asset_worker]]
        \<and> slice_elems (hookArrays mem') igHooks = []
        \<and> slice_elems (hookArrays mem') clusterHooks = [hook_all\<lparr>HookSpec.Roles := []\<rparr>]
        \<and> slice_elems (fileAssetArrays mem') fileAssets
            = [asset_all\<lparr>FileAssetSpec.Roles := []\<rparr>, asset_worker\<lparr>FileAssetSpec.Roles := []\<rparr>])"
proof -
  note h = memory_examples_hold(1)
  obtain igHooks clusterHooks fileAssets mem' where
    r: "NewConfig_mem growcap_double growcap_double memory_example clusterHooks_example
            igHooks_example nil_slice clusterFileAssets_example
            (InstanceGroupSpec.Role (InstanceGroup.Spec ig_worker_example))
          = Inr ((igHooks, clusterHooks, fileAssets), mem')"
    "take (length (hookArrays memory_example)) (hookArrays mem') = hookArrays memory_example"
    "take (length (fileAssetArrays memory_example)) (fileAssetArrays mem')
       = fileAssetArrays memory_example"
    "slice_elems (hookArrays mem') igHooks
               = filterHooks (InstanceGroupSpec.Hooks (InstanceGroup.Spec ig_worker_example))
                   (InstanceGroupSpec.Role (InstanceGroup.Spec ig_worker_example))"
    "slice_elems (hookArrays mem') clusterHooks
               = filterHooks (ClusterSpec.Hooks (Cluster.Spec cluster_aws_example))
                   (InstanceGroupSpec.Role (InstanceGroup.Spec ig_worker_example))"
    "slice_elems (fileAssetArrays mem') fileAssets
               = filterFileAssets (InstanceGroupSpec.FileAssets (InstanceGroup.Spec ig_worker_example))
                   (InstanceGroupSpec.Role (InstanceGroup.Spec ig_worker_example))
                 @ filterFileAssets (ClusterSpec.FileAssets (Cluster.Spec cluster_aws_example))
                     (InstanceGroupSpec.Role (InstanceGroup.Spec ig_worker_example))"
    using NewConfig_leaves_inputs_unchanged[OF h, of growcap_double growcap_double] by blast
  have "NewConfig_mem growcap_double growcap_double memory_example clusterHooks_example
            igHooks_example nil_slice clusterFileAssets_example ''worker''
          = Inr ((igHooks, clusterHooks, fileAssets), mem')"
    using r(1) by (simp add: ig_worker_example_def)
  moreover have "take 2 (hookArrays mem') = [[hook_all, HookSpec_zero], [hook_control_plane]]"
    "take 1 (fileAssetArrays mem') = [[asset_all, asset_worker]]"
    using r(2,3) by (simp_all add: memory_example_def numeral_2_eq_2)
  moreover have "slice_elems (hookArrays mem') igHooks = []"
    "slice_elems (hookArrays mem') clusterHooks = [hook_all\<lparr>HookSpec.Roles := []\<rparr>]"
    "slice_elems (fileAssetArrays mem') fileAssets
            = [asset_all\<lparr>FileAssetSpec.Roles := []\<rparr>, asset_worker\<lparr>FileAssetSpec.Roles := []\<rparr>]"
    using r(4,5,6)
    by (simp_all add: example_defs filterHooks_eq filterFileAssets_eq applies_to_role_def)
  ultimately show ?thesis
    using h by blast
qed

text \<open>
  C4. \<^verbatim>\<open>NewConfig\<close> is deterministic. Its result is a function of the cluster and of the
  instance group (and of the methods of package \<^verbatim>\<open>kops\<close>): equal inputs give equal node
  and boot configurations. On the store, two invocations in any two stores that hold the
  same cluster and instance group, at whatever addresses, with whatever spare capacity and
  under whatever capacity policy of \<^verbatim>\<open>append\<close>, both run to the end, and the slices they
  return hold the same elements: the hooks and the file assets of the one node
  configuration that \<^verbatim>\<open>NewConfig\<close> returns for these inputs. A slice is \<^verbatim>\<open>nil\<close> in
  the one run exactly when it is \<^verbatim>\<open>nil\<close> in the other.
\<close>

theorem NewConfig_deterministic:
  assumes "NewConfig kops cluster ig = Inr (config, bootConfig)"
    and "inputs_in_memory mem1 clusterHooks1 igHooks1 igFileAssets1 clusterFileAssets1 cluster ig"
    and "inputs_in_memory mem2 clusterHooks2 igHooks2 igFileAssets2 clusterFileAssets2 cluster ig"
  shows "(cluster' = cluster \<and> ig' = ig \<longrightarrow>
            NewConfig kops cluster' ig' = Inr (config, bootConfig))
         \<and> (\<exists>igHooksA clusterHooksA fileAssetsA memA igHooksB clusterHooksB fileAssetsB memB.
              NewConfig_mem growH1 growF1 mem1 clusterHooks1 igHooks1 igFileAssets1
                  clusterFileAssets1 (InstanceGroupSpec.Role (InstanceGroup.Spec ig))
                = Inr ((igHooksA, clusterHooksA, fileAssetsA), memA)
              \<and> NewConfig_mem growH2 growF2 mem2 clusterHooks2 igHooks2 igFileAssets2
                  clusterFileAssets2 (InstanceGroupSpec.Role (InstanceGroup.Spec ig))
                = Inr ((igHooksB, clusterHooksB, fileAssetsB), memB)
              \<and> Config.Hooks config
                  = [slice_elems (hookArrays memA) igHooksA, slice_elems (hookArrays memA) clusterHooksA]
              \<and> Config.Hooks config
                  = [slice_elems (hookArrays memB) igHooksB, slice_elems (hookArrays memB) clusterHooksB]
              \<and> Config.FileAssets config = slice_elems (fileAssetArrays memA) fileAssetsA
              \<and> Config.FileAssets config = slice_elems (fileAssetArrays memB) fileAssetsB
              \<and> (array igHooksA = None) = (array igHooksB = None)
              \<and> (array clusterHooksA = None) = (array clusterHooksB = None)
              \<and> (array fileAssetsA = None) = (array fileAssetsB = None))"
proof -
  let ?role = "InstanceGroupSpec.Role (InstanceGroup.Spec ig)"
  have ok1: "slice_ok (hookArrays mem1) clusterHooks1" "slice_ok (hookArrays mem1) igHooks1"
    "slice_ok (fileAssetArrays mem1) igFileAssets1"
    "slice_ok (fileAssetArrays mem1) clusterFileAssets1"
    and el1: "slice_elems (hookArrays mem1) clusterHooks1 = ClusterSpec.Hooks (Cluster.Spec cluster)"
    "slice_elems (hookArrays mem1) igHooks1 = InstanceGroupSpec.Hooks (InstanceGroup.Spec ig)"
    "slice_elems (fileAssetArrays mem1) igFileAssets1
       = InstanceGroupSpec.FileAssets (InstanceGroup.Spec ig)"
    "slice_elems (fileAssetArrays mem1) clusterFileAssets1
       = ClusterSpec.FileAssets (Cluster.Spec cluster)"
    using assms(2) by (simp_all add: inputs_in_memory_def)
  have ok2: "slice_ok (hookArrays mem2) clusterHooks2" "slice_ok (hookArrays mem2) igHooks2"
    "slice_ok (fileAssetArrays mem2) igFileAssets2"
    "slice_ok (fileAssetArrays mem2) clusterFileAssets2"
    and el2: "slice_elems (hookArrays mem2) clusterHooks2 = ClusterSpec.Hooks (Cluster.Spec cluster)"
    "slice_elems (hookArrays mem2) igHooks2 = InstanceGroupSpec.Hooks (InstanceGroup.Spec ig)"
    "slice_elems (fileAssetArrays mem2) igFileAssets2
       = InstanceGroupSpec.FileAssets (InstanceGroup.Spec ig)"
    "slice_elems (fileAssetArrays mem2) clusterFileAssets2
       = ClusterSpec.FileAssets (Cluster.Spec cluster)"
    using assms(3) by (simp_all add: inputs_in_memory_def)
  obtain igHooksA clusterHooksA fileAssetsA freshHA freshFA where
    runA: "NewConfig_mem growH1 growF1 mem1 clusterHooks1 igHooks1 igFileAssets1
              clusterFileAssets1 ?role
            = Inr ((igHooksA, clusterHooksA, fileAssetsA),
                   \<lparr>hookArrays = hookArrays mem1 @ freshHA,
                    fileAssetArrays = fileAssetArrays mem1 @ freshFA\<rparr>)"
    and outA: "slice_elems (hookArrays mem1 @ freshHA) igHooksA
               = filterHooks (slice_elems (hookArrays mem1) igHooks1) ?role"
      "slice_elems (hookArrays mem1 @ freshHA) clusterHooksA
               = filterHooks (slice_elems (hookArrays mem1) clusterHooks1) ?role"
      "slice_elems (fileAssetArrays mem1 @ freshFA) fileAssetsA
               = filterFileAssets (slice_elems (fileAssetArrays mem1) igFileAssets1) ?role
                 @ filterFileAssets (slice_elems (fileAssetArrays mem1) clusterFileAssets1) ?role"
    and nilA: "(array igHooksA = None) = (slice_elems (hookArrays mem1 @ freshHA) igHooksA = [])"
      "(array clusterHooksA = None)
         = (slice_elems (hookArrays mem1 @ freshHA) clusterHooksA = [])"
      "(array fileAssetsA = None)
         = (slice_elems (fileAssetArrays mem1 @ freshFA) fileAssetsA = [])"
    using NewConfig_mem_refines[OF ok1, of growH1 growF1 ?role] by (elim exE conjE)
  obtain igHooksB clusterHooksB fileAssetsB freshHB freshFB where
    runB: "NewConfig_mem growH2 growF2 mem2 clusterHooks2 igHooks2 igFileAssets2
              clusterFileAssets2 ?role
            = Inr ((igHooksB, clusterHooksB, fileAssetsB),
                   \<lparr>hookArrays = hookArrays mem2 @ freshHB,
                    fileAssetArrays = fileAssetArrays mem2 @ freshFB\<rparr>)"
    and outB: "slice_elems (hookArrays mem2 @ freshHB) igHooksB
               = filterHooks (slice_elems (hookArrays mem2) igHooks2) ?role"
      "slice_elems (hookArrays mem2 @ freshHB) clusterHooksB
               = filterHooks (slice_elems (hookArrays mem2) clusterHooks2) ?role"
      "slice_elems (fileAssetArrays mem2 @ freshFB) fileAssetsB
               = filterFileAssets (slice_elems (fileAssetArrays mem2) igFileAssets2) ?role
                 @ filterFileAssets (slice_elems (fileAssetArrays mem2) clusterFileAssets2) ?role"
    and nilB: "(array igHooksB = None) = (slice_elems (hookArrays mem2 @ freshHB) igHooksB = [])"
      "(array clusterHooksB = None)
         = (slice_elems (hookArrays mem2 @ freshHB) clusterHooksB = [])"
      "(array fileAssetsB = None)
         = (slice_elems (fileAssetArrays mem2 @ freshFB) fileAssetsB = [])"
    using NewConfig_mem_refines[OF ok2, of growH2 growF2 ?role] by (elim exE conjE)
  note cf = NewConfig_Hooks_FileAssets[OF assms(1)]
  have "\<exists>igHooksA clusterHooksA fileAssetsA memA igHooksB clusterHooksB fileAssetsB memB.
              NewConfig_mem growH1 growF1 mem1 clusterHooks1 igHooks1 igFileAssets1
                  clusterFileAssets1 ?role
                = Inr ((igHooksA, clusterHooksA, fileAssetsA), memA)
              \<and> NewConfig_mem growH2 growF2 mem2 clusterHooks2 igHooks2 igFileAssets2
                  clusterFileAssets2 ?role
                = Inr ((igHooksB, clusterHooksB, fileAssetsB), memB)
              \<and> Config.Hooks config
                  = [slice_elems (hookArrays memA) igHooksA, slice_elems (hookArrays memA) clusterHooksA]
              \<and> Config.Hooks config
                  = [slice_elems (hookArrays memB) igHooksB, slice_elems (hookArrays memB) clusterHooksB]
              \<and> Config.FileAssets config = slice_elems (fileAssetArrays memA) fileAssetsA
              \<and> Config.FileAssets config = slice_elems (fileAssetArrays memB) fileAssetsB
              \<and> (array igHooksA = None) = (array igHooksB = None)
              \<and> (array clusterHooksA = None) = (array clusterHooksB = None)
              \<and> (array fileAssetsA = None) = (array fileAssetsB = None)"
    by (rule exI[of _ igHooksA], rule exI[of _ clusterHooksA], rule exI[of _ fileAssetsA],
        rule exI[of _ "\<lparr>hookArrays = hookArrays mem1 @ freshHA,
                    fileAssetArrays = fileAssetArrays mem1 @ freshFA\<rparr>"],
        rule exI[of _ igHooksB], rule exI[of _ clusterHooksB], rule exI[of _ fileAssetsB],
        rule exI[of _ "\<lparr>hookArrays = hookArrays mem2 @ freshHB,
                    fileAssetArrays = fileAssetArrays mem2 @ freshFB\<rparr>"])
       (simp add: runA runB outA outB nilA nilB cf el1 el2)
  moreover have "cluster' = cluster \<and> ig' = ig \<longrightarrow>
            NewConfig kops cluster' ig' = Inr (config, bootConfig)"
    using assms(1) by simp
  ultimately show ?thesis
    by (rule conjI[rotated])
qed

theorem NewConfig_deterministic_witness:
  "inputs_in_memory memory_example clusterHooks_example igHooks_example nil_slice
     clusterFileAssets_example cluster_aws_example ig_worker_example
   \<and> inputs_in_memory memory_example2 clusterHooks_example2 igHooks_example2 igFileAssets_example2
     clusterFileAssets_example2 cluster_aws_example ig_worker_example
   \<and> (\<exists>config bootConfig igHooksA clusterHooksA fileAssetsA memA
         igHooksB clusterHooksB fileAssetsB memB.
        NewConfig kops_example cluster_aws_example ig_worker_example = Inr (config, bootConfig)
        \<and> NewConfig_mem growcap_double growcap_double memory_example clusterHooks_example
              igHooks_example nil_slice clusterFileAssets_example ''worker''
            = Inr ((igHooksA, clusterHooksA, fileAssetsA), memA)
        \<and> NewConfig_mem growcap_exact growcap_double memory_example2 clusterHooks_example2
              igHooks_example2 igFileAssets_example2 clusterFileAssets_example2 ''worker''
            = Inr ((igHooksB, clusterHooksB, fileAssetsB), memB)
        \<and> slice_elems (hookArrays memA) igHooksA = slice_elems (hookArrays memB) igHooksB
        \<and> slice_elems (hookArrays memA) clusterHooksA = slice_elems (hookArrays memB) clusterHooksB
        \<and> slice_elems (fileAssetArrays memA) fileAssetsA
            = slice_elems (fileAssetArrays memB) fileAssetsB
        \<and> Config.FileAssets config = slice_elems (fileAssetArrays memB) fileAssetsB
        \<and> (array igHooksA = None) = (array igHooksB = None)
        \<and> (array fileAssetsA = None) = (array fileAssetsB = None))"
proof -
  obtain config bootConfig where
    r: "NewConfig kops_example cluster_aws_example ig_worker_example = Inr (config, bootConfig)"
    using NewConfig_returns[OF kops_example_nil_safe] by blast
  have role: "InstanceGroupSpec.Role (InstanceGroup.Spec ig_worker_example) = ''worker''"
    by (simp add: ig_worker_example_def)
  have "\<exists>igHooksA clusterHooksA fileAssetsA memA igHooksB clusterHooksB fileAssetsB memB.
     NewConfig_mem growcap_double growcap_double memory_example clusterHooks_example
              igHooks_example nil_slice clusterFileAssets_example ''worker''
            = Inr ((igHooksA, clusterHooksA, fileAssetsA), memA)
     \<and> NewConfig_mem growcap_exact growcap_double memory_example2 clusterHooks_example2
              igHooks_example2 igFileAssets_example2 clusterFileAssets_example2 ''worker''
            = Inr ((igHooksB, clusterHooksB, fileAssetsB), memB)
     \<and> Config.Hooks config
         = [slice_elems (hookArrays memA) igHooksA, slice_elems (hookArrays memA) clusterHooksA]
     \<and> Config.Hooks config
         = [slice_elems (hookArrays memB) igHooksB, slice_elems (hookArrays memB) clusterHooksB]
     \<and> Config.FileAssets config = slice_elems (fileAssetArrays memA) fileAssetsA
     \<and> Config.FileAssets config = slice_elems (fileAssetArrays memB) fileAssetsB
     \<and> (array igHooksA = None) = (array igHooksB = None)
     \<and> (array clusterHooksA = None) = (array clusterHooksB = None)
     \<and> (array fileAssetsA = None) = (array fileAssetsB = None)"
    using NewConfig_deterministic[OF r memory_examples_hold(1) memory_examples_hold(2),
        of cluster_aws_example ig_worker_example growcap_double growcap_double
           growcap_exact growcap_double]
    unfolding role by (rule conjunct2)
  then obtain igHooksA clusterHooksA fileAssetsA memA igHooksB clusterHooksB fileAssetsB memB where
    "NewConfig_mem growcap_double growcap_double memory_example clusterHooks_example
              igHooks_example nil_slice clusterFileAssets_example ''worker''
            = Inr ((igHooksA, clusterHooksA, fileAssetsA), memA)"
    "NewConfig_mem growcap_exact growcap_double memory_example2 clusterHooks_example2
              igHooks_example2 igFileAssets_example2 clusterFileAssets_example2 ''worker''
            = Inr ((igHooksB, clusterHooksB, fileAssetsB), memB)"
    "Config.Hooks config
       = [slice_elems (hookArrays memA) igHooksA, slice_elems (hookArrays memA) clusterHooksA]"
    "Config.Hooks config
       = [slice_elems (hookArrays memB) igHooksB, slice_elems (hookArrays memB) clusterHooksB]"
    "Config.FileAssets config = slice_elems (fileAssetArrays memA) fileAssetsA"
    "Config.FileAssets config = slice_elems (fileAssetArrays memB) fileAssetsB"
    "(array igHooksA = None) = (array igHooksB = None)"
    "(array clusterHooksA = None) = (array clusterHooksB = None)"
    "(array fileAssetsA = None) = (array fileAssetsB = None)"
    by (elim exE conjE)
  then have "\<exists>config bootConfig igHooksA clusterHooksA fileAssetsA memA
         igHooksB clusterHooksB fileAssetsB memB.
        NewConfig kops_example cluster_aws_example ig_worker_example = Inr (config, bootConfig)
        \<and> NewConfig_mem growcap_double growcap_double memory_example clusterHooks_example
              igHooks_example nil_slice clusterFileAssets_example ''worker''
            = Inr ((igHooksA, clusterHooksA, fileAssetsA), memA)
        \<and> NewConfig_mem growcap_exact growcap_double memory_example2 clusterHooks_example2
              igHooks_example2 igFileAssets_example2 clusterFileAssets_example2 ''worker''
            = Inr ((igHooksB, clusterHooksB, fileAssetsB), memB)
        \<and> slice_elems (hookArrays memA) igHooksA = slice_elems (hookArrays memB) igHooksB
        \<and> slice_elems (hookArrays memA) clusterHooksA = slice_elems (hookArrays memB) clusterHooksB
        \<and> slice_elems (fileAssetArrays memA) fileAssetsA
            = slice_elems (fileAssetArrays memB) fileAssetsB
        \<and> Config.FileAssets config = slice_elems (fileAssetArrays memB) fileAssetsB
        \<and> (array igHooksA = None) = (array igHooksB = None)
        \<and> (array fileAssetsA = None) = (array fileAssetsB = None)"
    using r
    by - (rule exI[of _ config], rule exI[of _ bootConfig],
        rule exI[of _ igHooksA], rule exI[of _ clusterHooksA], rule exI[of _ fileAssetsA],
        rule exI[of _ memA], rule exI[of _ igHooksB], rule exI[of _ clusterHooksB],
        rule exI[of _ fileAssetsB], rule exI[of _ memB], simp)
  then show ?thesis
    using memory_examples_hold by simp
qed

end
